theory Spec2Isabelle
  imports Complex_Main "HOL-Library.Word" "HOL-Library.Signed_Division"
begin

unbundle bit_operations_syntax

section \<open>Machine types of platform-win32.cc\<close>

text \<open>
  The Win32 integer types: \<open>WORD\<close> is 16 bits, \<open>DWORD\<close> and \<open>LONG\<close> are 32 bits
  (\<open>LONG\<close> is read as two's complement with \<open>sint\<close>), \<open>int64_t\<close> is 64 bits.
  Addition, subtraction and multiplication on words wrap around; the signed
  division of C++ truncates towards zero and is written with \<open>sdiv\<close> on the
  signed readings.
\<close>

type_synonym WORD = "16 word"
type_synonym DWORD = "32 word"
type_synonym LONG = "32 word"
type_synonym int64_t = "64 word"

definition int64_div :: "int64_t \<Rightarrow> int64_t \<Rightarrow> int64_t" where
  "int64_div a b = word_of_int (sint a sdiv sint b)"

text \<open>
  A call that can end in \<open>OS::Abort\<close> (a failed \<open>CHECK\<close>, or a failed \<open>DCHECK\<close> in a
  debug build) has an \<open>outcome\<close>: \<open>Abort\<close>, or \<open>Return\<close> with the value handed back
  to the caller.
\<close>

datatype 'r outcome = Abort | Return 'r

section \<open>Time zone cache and Win32Time\<close>

record SYSTEMTIME =
  wYear :: WORD
  wMonth :: WORD
  wDayOfWeek :: WORD
  wDay :: WORD
  wHour :: WORD
  wMinute :: WORD
  wSecond :: WORD
  wMilliseconds :: WORD

text \<open>
  \<open>TIME_ZONE_INFORMATION\<close>: the two names are \<open>WCHAR[32]\<close> arrays holding a
  NUL-terminated wide string; the model keeps the characters before the NUL.
\<close>

record TIME_ZONE_INFORMATION =
  Bias :: LONG
  StandardName :: "16 word list"
  StandardDate :: SYSTEMTIME
  StandardBias :: LONG
  DaylightName :: "16 word list"
  DaylightDate :: SYSTEMTIME
  DaylightBias :: LONG

text \<open>The result of \<open>memset(&tzinfo_, 0, sizeof(tzinfo_))\<close>.\<close>

definition zero_SYSTEMTIME :: SYSTEMTIME where
  "zero_SYSTEMTIME = \<lparr>wYear = 0, wMonth = 0, wDayOfWeek = 0, wDay = 0, wHour = 0,
     wMinute = 0, wSecond = 0, wMilliseconds = 0\<rparr>"

definition zero_TIME_ZONE_INFORMATION :: TIME_ZONE_INFORMATION where
  "zero_TIME_ZONE_INFORMATION = \<lparr>Bias = 0, StandardName = [], StandardDate = zero_SYSTEMTIME,
     StandardBias = 0, DaylightName = [], DaylightDate = zero_SYSTEMTIME, DaylightBias = 0\<rparr>"

text \<open>The C runtime's \<open>struct tm\<close>, filled by \<open>localtime_s\<close>.\<close>

record tm =
  tm_sec :: int
  tm_min :: int
  tm_hour :: int
  tm_mday :: int
  tm_mon :: int
  tm_year :: int
  tm_wday :: int
  tm_yday :: int
  tm_isdst :: int

text \<open>
  What the time functions ask of the operating system and the C runtime.
  \<^item> \<open>GetTimeZoneInformation\<close>: the returned id and the contents of the zeroed
    structure after the call.
  \<^item> \<open>WideCharToMultiByte\<close>: the UTF-8 rendering of a wide string.
  \<^item> \<open>localtime_s\<close>: \<open>None\<close> for a non-zero error code, otherwise the filled
    \<open>struct tm\<close>. With \<open>_USE_32BIT_TIME_T\<close> its argument is a 32-bit \<open>time_t\<close>.
  \<^item> \<open>TimeCurrentMillis\<close>: the wall clock, \<open>OS::TimeCurrentMillis()\<close>. Its
    \<open>double\<close> is represented by the integer that \<open>static_cast<int64_t>\<close>
    makes of it.
\<close>

record tz_os =
  GetTimeZoneInformation :: "DWORD \<times> TIME_ZONE_INFORMATION"
  WideCharToMultiByte :: "16 word list \<Rightarrow> string"
  localtime_s :: "32 word \<Rightarrow> tm option"
  TimeCurrentMillis :: int

definition TIME_ZONE_ID_INVALID :: DWORD where
  "TIME_ZONE_ID_INVALID = 0xFFFFFFFF"

definition kTzNameSize :: nat where
  "kTzNameSize = 128"

text \<open>
  The members \<open>initialized_\<close>, \<open>std_tz_name_\<close>, \<open>dst_tz_name_\<close> and \<open>tzinfo_\<close>
  of the class; a field name cannot end in an underscore here.
\<close>

record WindowsTimezoneCache =
  initialized :: bool
  std_tz_name :: string
  dst_tz_name :: string
  tzinfo :: TIME_ZONE_INFORMATION

text \<open>The constructor: \<open>initialized_(false)\<close>; the other members are not yet written.\<close>

definition new_WindowsTimezoneCache :: WindowsTimezoneCache where
  "new_WindowsTimezoneCache = \<lparr>initialized = False, std_tz_name = [], dst_tz_name = [],
     tzinfo = zero_TIME_ZONE_INFORMATION\<rparr>"

definition Clear :: "WindowsTimezoneCache \<Rightarrow> WindowsTimezoneCache" where
  "Clear cache = cache\<lparr>initialized := False\<rparr>"

text \<open>\<open>GuessTimezoneNameFromBias\<close>: a \<open>switch\<close> on \<open>-bias\<close>, an \<open>int\<close> negation.\<close>

definition GuessTimezoneNameFromBias :: "LONG \<Rightarrow> string" where
  "GuessTimezoneNameFromBias bias =
     (let kHour = 60; b = sint (- bias) in
      if b = -9 * kHour then ''Alaska''
      else if b = -8 * kHour then ''Pacific''
      else if b = -7 * kHour then ''Mountain''
      else if b = -6 * kHour then ''Central''
      else if b = -5 * kHour then ''Eastern''
      else if b = -4 * kHour then ''Atlantic''
      else if b = 0 * kHour then ''GMT''
      else if b = 1 * kHour then ''Central Europe''
      else if b = 2 * kHour then ''Eastern Europe''
      else if b = 3 * kHour then ''Russia''
      else if b = 5 * kHour + 30 then ''India''
      else if b = 8 * kHour then ''China''
      else if b = 9 * kHour then ''Japan''
      else if b = 12 * kHour then ''New Zealand''
      else ''Local'')"

text \<open>
  \<open>OS::SNPrintF(str, length, format, ...)\<close> with \<open>_TRUNCATE\<close>: at most
  \<open>length - 1\<close> characters of the formatted text are stored before the NUL.
\<close>

definition SNPrintF :: "nat \<Rightarrow> string \<Rightarrow> string" where
  "SNPrintF len formatted = take (len - 1) formatted"

text \<open>
  \<open>InitializeIfNeeded\<close>. A name buffer is \<open>char[kTzNameSize]\<close> whose last byte is
  set to NUL after the conversion, so at most \<open>kTzNameSize - 1\<close> characters stay.
\<close>

definition InitializeIfNeeded :: "tz_os \<Rightarrow> WindowsTimezoneCache \<Rightarrow> WindowsTimezoneCache" where
  "InitializeIfNeeded os cache =
     (if initialized cache then cache
      else
        let (id, info) = GetTimeZoneInformation os;
            info = (if id = TIME_ZONE_ID_INVALID
                    then info\<lparr>Bias := - 60,
                              StandardDate := (StandardDate info)\<lparr>wMonth := 10, wDay := 5, wHour := 3\<rparr>,
                              StandardBias := 0,
                              DaylightDate := (DaylightDate info)\<lparr>wMonth := 3, wDay := 5, wHour := 2\<rparr>,
                              DaylightBias := - 60\<rparr>
                    else info);
            std = take (kTzNameSize - 1) (WideCharToMultiByte os (StandardName info));
            dst = take (kTzNameSize - 1) (WideCharToMultiByte os (DaylightName info));
            std = (if std = [] \<or> hd std = CHR ''@''
                   then SNPrintF (kTzNameSize - 1)
                          (GuessTimezoneNameFromBias (Bias info) @ '' Standard Time'')
                   else std);
            dst = (if dst = [] \<or> hd dst = CHR ''@''
                   then SNPrintF (kTzNameSize - 1)
                          (GuessTimezoneNameFromBias (Bias info) @ '' Daylight Time'')
                   else dst)
        in \<lparr>initialized = True, std_tz_name = std, dst_tz_name = dst, tzinfo = info\<rparr>)"

text \<open>
  \<open>Win32Time\<close> holds one \<open>int64_t\<close>, the time in units of 100 ns since
  1601-01-01 (UTC); the model passes that value where the source passes \<open>this\<close>.
\<close>

definition kTimeEpoc :: int64_t where
  "kTimeEpoc = 116444736000000000"

definition kTimeScaler :: int64_t where
  "kTimeScaler = 10000"

definition kMsPerMinute :: int64_t where
  "kMsPerMinute = 60000"

definition INT_MAX :: int where
  "INT_MAX = 2147483647"

text \<open>
  \<open>Win32Time(double jstime)\<close>: the argument is the integer that
  \<open>static_cast<int64_t>(jstime)\<close> yields.
\<close>

definition Win32Time :: "int \<Rightarrow> int64_t" where
  "Win32Time jstime = word_of_int jstime * kTimeScaler + kTimeEpoc"

text \<open>
  \<open>ToJSTime\<close>: the quotient is an integer below \<open>2^53\<close> in magnitude, so the
  \<open>double\<close> it is cast to holds it exactly; the model returns that integer.
\<close>

definition ToJSTime :: "int64_t \<Rightarrow> int" where
  "ToJSTime t = sint (int64_div (t - kTimeEpoc) kTimeScaler)"

text \<open>
  \<open>Win32Time::LocalOffset\<close>. The \<open>double\<close> \<open>unchecked_posix_time\<close> is a real
  number here: the two comparisons are against values a \<open>double\<close> represents, and
  past them the quotient is a whole number of seconds, which the division by 1000
  yields exactly. The result is paired with the cache, which
  \<open>InitializeIfNeeded\<close> may have filled.
\<close>

definition LocalOffset :: "tz_os \<Rightarrow> int64_t \<Rightarrow> WindowsTimezoneCache \<Rightarrow> int64_t \<times> WindowsTimezoneCache" where
  "LocalOffset os t cache =
     (let cache = InitializeIfNeeded os cache;
          rounded_to_second = int64_div (int64_div t 1000) kTimeScaler * 1000 * kTimeScaler;
          unchecked_posix_time = real_of_int (ToJSTime rounded_to_second) / 1000
      in if unchecked_posix_time > real_of_int INT_MAX \<or> unchecked_posix_time < 0
         then (0, cache)
         else
           let posix_time = (word_of_int \<lfloor>unchecked_posix_time\<rfloor> :: 32 word) in
           case localtime_s os posix_time of
             None \<Rightarrow> (0, cache)
           | Some posix_local_time_struct \<Rightarrow>
               if tm_isdst posix_local_time_struct > 0
               then (scast (Bias (tzinfo cache) + DaylightBias (tzinfo cache)) * (- kMsPerMinute), cache)
               else if tm_isdst posix_local_time_struct = 0
               then (scast (Bias (tzinfo cache) + StandardBias (tzinfo cache)) * (- kMsPerMinute), cache)
               else (scast (Bias (tzinfo cache)) * (- kMsPerMinute), cache))"

definition InDST :: "tz_os \<Rightarrow> int64_t \<Rightarrow> WindowsTimezoneCache \<Rightarrow> bool \<times> WindowsTimezoneCache" where
  "InDST os t cache =
     (let cache = InitializeIfNeeded os cache in
      if wMonth (StandardDate (tzinfo cache)) \<noteq> 0 \<or> wMonth (DaylightDate (tzinfo cache)) \<noteq> 0
      then
        let (offset, cache) = LocalOffset os t cache;
            dstofs = scast (- (Bias (tzinfo cache) + DaylightBias (tzinfo cache))) * kMsPerMinute
        in (offset = dstofs, cache)
      else (False, cache))"

definition DaylightSavingsOffset :: "tz_os \<Rightarrow> int64_t \<Rightarrow> WindowsTimezoneCache \<Rightarrow> int64_t \<times> WindowsTimezoneCache" where
  "DaylightSavingsOffset os t cache =
     (let (in_dst, cache) = InDST os t cache
      in (if in_dst then 60 * kMsPerMinute else 0, cache))"

definition LocalTimezone :: "tz_os \<Rightarrow> int64_t \<Rightarrow> WindowsTimezoneCache \<Rightarrow> string \<times> WindowsTimezoneCache" where
  "LocalTimezone os t cache =
     (let (in_dst, cache) = InDST os t cache
      in (if in_dst then dst_tz_name cache else std_tz_name cache, cache))"

text \<open>
  The three queries of \<open>WindowsTimezoneCache\<close>. Their \<open>double\<close> arguments and
  results are whole numbers of milliseconds, kept as integers.
  \<open>LocalTimeOffset\<close> ignores both of its arguments and reads the wall clock.
\<close>

definition WindowsTimezoneCache_LocalTimezone :: "tz_os \<Rightarrow> WindowsTimezoneCache \<Rightarrow> int \<Rightarrow> string \<times> WindowsTimezoneCache" where
  "WindowsTimezoneCache_LocalTimezone os cache time = LocalTimezone os (Win32Time time) cache"

definition WindowsTimezoneCache_LocalTimeOffset :: "tz_os \<Rightarrow> WindowsTimezoneCache \<Rightarrow> int \<Rightarrow> bool \<Rightarrow> int \<times> WindowsTimezoneCache" where
  "WindowsTimezoneCache_LocalTimeOffset os cache time_ms is_utc =
     (let t = Win32Time (TimeCurrentMillis os);
          (local_offset, cache) = LocalOffset os t cache;
          (dst_offset, cache) = DaylightSavingsOffset os t cache
      in (sint (local_offset - dst_offset), cache))"

definition WindowsTimezoneCache_DaylightSavingsOffset :: "tz_os \<Rightarrow> WindowsTimezoneCache \<Rightarrow> int \<Rightarrow> int \<times> WindowsTimezoneCache" where
  "WindowsTimezoneCache_DaylightSavingsOffset os cache time =
     (let (offset, cache) = DaylightSavingsOffset os (Win32Time time) cache
      in (sint offset, cache))"

text \<open>
  The specification's reading of the first step of \<open>LocalOffset\<close>: the
  timestamp rounded down to whole seconds, counted from 1970-01-01 (the
  representable range of the 32-bit \<open>time_t\<close> is \<open>0 .. INT_MAX\<close>).
\<close>

definition spec_posix_seconds :: "int64_t \<Rightarrow> int" where
  "spec_posix_seconds t = (sint t - 116444736000000000) div 10000000"

text \<open>
  Example environments. \<open>fixed_zone_os\<close> is a zone without daylight saving
  (UTC-5, no transition dates); \<open>localtime_isdst\<close> is a \<open>localtime_s\<close> that
  succeeds with a given \<open>tm_isdst\<close>.
\<close>

definition localtime_isdst :: "int \<Rightarrow> 32 word \<Rightarrow> tm option" where
  "localtime_isdst isdst posix_time =
     Some \<lparr>tm_sec = 0, tm_min = 0, tm_hour = 0, tm_mday = 1, tm_mon = 0, tm_year = 100,
           tm_wday = 0, tm_yday = 0, tm_isdst = isdst\<rparr>"

definition fixed_zone_os :: tz_os where
  "fixed_zone_os = \<lparr>GetTimeZoneInformation = (0, zero_TIME_ZONE_INFORMATION\<lparr>Bias := 300\<rparr>),
     WideCharToMultiByte = (\<lambda>w. []), localtime_s = localtime_isdst 0,
     TimeCurrentMillis = 946684800000\<rparr>"

text \<open>
  \<open>seasonal_localtime\<close> reports daylight saving before \<open>time_t\<close> 1000000000
  and standard time from then on; \<open>half_hour_dst_os\<close> is a zone ten and a half
  hours east of UTC whose daylight bias is half an hour, with a given wall clock;
  \<open>unknown_dst_os\<close> is a zone with a non-zero standard bias whose \<open>localtime_s\<close>
  leaves \<open>tm_isdst\<close> negative (daylight saving status unknown).
\<close>

definition seasonal_localtime :: "32 word \<Rightarrow> tm option" where
  "seasonal_localtime posix_time =
     localtime_isdst (if unat posix_time < 1000000000 then 1 else 0) posix_time"

definition half_hour_dst_os :: "int \<Rightarrow> tz_os" where
  "half_hour_dst_os now = \<lparr>GetTimeZoneInformation =
       (1, zero_TIME_ZONE_INFORMATION\<lparr>Bias := - 630,
          StandardDate := zero_SYSTEMTIME\<lparr>wMonth := 4, wDay := 1, wHour := 2\<rparr>,
          DaylightDate := zero_SYSTEMTIME\<lparr>wMonth := 10, wDay := 1, wHour := 2\<rparr>,
          DaylightBias := - 30\<rparr>),
     WideCharToMultiByte = (\<lambda>w. []), localtime_s = seasonal_localtime,
     TimeCurrentMillis = now\<rparr>"

definition unknown_dst_os :: tz_os where
  "unknown_dst_os = \<lparr>GetTimeZoneInformation =
       (0, zero_TIME_ZONE_INFORMATION\<lparr>Bias := - 60,
          StandardDate := zero_SYSTEMTIME\<lparr>wMonth := 10, wDay := 5, wHour := 3\<rparr>,
          StandardBias := 30,
          DaylightDate := zero_SYSTEMTIME\<lparr>wMonth := 3, wDay := 5, wHour := 2\<rparr>,
          DaylightBias := - 60\<rparr>),
     WideCharToMultiByte = (\<lambda>w. []), localtime_s = localtime_isdst (- 1),
     TimeCurrentMillis = 946684800000\<rparr>"

section \<open>Virtual memory\<close>

text \<open>
  Addresses and sizes (\<open>void*\<close>, \<open>uint8_t*\<close>, \<open>uintptr_t\<close>, \<open>size_t\<close>) are words of
  the host's pointer width \<open>'a\<close>; \<open>nullptr\<close> is 0. The types below are
  parametrised by the pointer type \<open>'p\<close>, which the functions take as \<open>'a word\<close>.
\<close>

datatype MemoryPermission =
  kNoAccess | kNoAccessWillJitLater | kRead | kReadWrite | kReadWriteExecute | kReadExecute

text \<open>Constants of the Windows SDK (\<open>winnt.h\<close>), with the values given there.\<close>

definition PAGE_NOACCESS :: DWORD where "PAGE_NOACCESS = 0x01"
definition PAGE_READONLY :: DWORD where "PAGE_READONLY = 0x02"
definition PAGE_READWRITE :: DWORD where "PAGE_READWRITE = 0x04"
definition PAGE_EXECUTE_READ :: DWORD where "PAGE_EXECUTE_READ = 0x20"
definition PAGE_EXECUTE_READWRITE :: DWORD where "PAGE_EXECUTE_READWRITE = 0x40"
definition PAGE_TARGETS_INVALID :: DWORD where "PAGE_TARGETS_INVALID = 0x40000000"
definition MEM_COMMIT :: DWORD where "MEM_COMMIT = 0x1000"
definition MEM_RESERVE :: DWORD where "MEM_RESERVE = 0x2000"
definition MEM_DECOMMIT :: DWORD where "MEM_DECOMMIT = 0x4000"
definition MEM_RELEASE :: DWORD where "MEM_RELEASE = 0x8000"
definition MEM_RESET :: DWORD where "MEM_RESET = 0x80000"

text \<open>
  Every call into the operating system's memory manager is recorded, with its
  arguments and its result, in the order it is made.
  \<^item> \<open>EvVirtualAlloc lpAddress dwSize flAllocationType flProtect result\<close>
  \<^item> \<open>EvVirtualFree lpAddress dwSize dwFreeType ok\<close>, \<open>ok\<close> for a non-zero result
  \<^item> \<open>EvDiscardVirtualMemory address size result\<close>
\<close>

datatype 'p vm_event =
    EvVirtualAlloc 'p 'p DWORD DWORD 'p
  | EvVirtualFree 'p 'p DWORD bool
  | EvDiscardVirtualMemory 'p 'p DWORD

text \<open>
  What the memory functions take from outside platform-win32.cc.
  \<^item> \<open>DEBUG\<close>: whether the build compiles \<open>DCHECK\<close>s in (a \<open>CHECK\<close> is always
    compiled in).
  \<^item> \<open>V8_HOST_ARCH_32_BIT\<close>: the preprocessor switch in \<open>RandomizedVirtualAlloc\<close>.
  \<^item> \<open>RoundUp\<close> and \<open>AlignedAddress\<close>: the two helpers of src/base/macros.h,
    which is not among the sources; they are parameters, and \<open>macros_RoundUp\<close>
    and \<open>macros_AlignedAddress\<close> below are what the V8 code base has for them.
  \<^item> \<open>os_IsWindows10OrGreater\<close>, \<open>dwAllocationGranularity\<close>, \<open>dwPageSize\<close>
    (the two fields of \<open>SYSTEM_INFO\<close>): constant for a process.
  \<^item> \<open>os_IsWow64Process\<close>: whether the call succeeds, and the \<open>BOOL\<close> it stores.
  \<^item> \<open>os_VirtualAlloc\<close>, \<open>os_VirtualFree\<close>, \<open>os_DiscardVirtualMemory\<close>: the
    result of the call, which may depend on its arguments and on every earlier
    call (the first argument is the record of the calls made so far).
  \<^item> \<open>os_GetProcAddress_DiscardVirtualMemory\<close>: the address of
    \<open>DiscardVirtualMemory\<close> in Kernel32.dll, 0 when it is not exported.
\<close>

record 'p vm_os =
  DEBUG :: bool
  V8_HOST_ARCH_32_BIT :: bool
  RoundUp :: "'p \<Rightarrow> 'p \<Rightarrow> 'p"
  AlignedAddress :: "'p \<Rightarrow> 'p \<Rightarrow> 'p"
  os_IsWindows10OrGreater :: bool
  dwAllocationGranularity :: DWORD
  dwPageSize :: DWORD
  os_IsWow64Process :: "bool \<times> int"
  os_VirtualAlloc :: "'p vm_event list \<Rightarrow> 'p \<Rightarrow> 'p \<Rightarrow> DWORD \<Rightarrow> DWORD \<Rightarrow> 'p"
  os_VirtualFree :: "'p vm_event list \<Rightarrow> 'p \<Rightarrow> 'p \<Rightarrow> DWORD \<Rightarrow> bool"
  os_GetProcAddress_DiscardVirtualMemory :: "'p"
  os_DiscardVirtualMemory :: "'p vm_event list \<Rightarrow> 'p \<Rightarrow> 'p \<Rightarrow> DWORD"

text \<open>
  The state the memory functions keep between calls: the record of the calls and
  the two function-local statics \<open>use_aslr\<close> (of \<open>RandomizedVirtualAlloc\<close>, a
  \<open>BOOL\<close> that starts as -1) and \<open>discard_virtual_memory\<close> (of
  \<open>DiscardSystemPages\<close>, a function pointer that starts as -1).
\<close>

record 'p vm_state =
  vm_events :: "'p vm_event list"
  use_aslr :: int
  discard_virtual_memory :: "'p"

definition initial_vm_state :: "'a::len word vm_state" where
  "initial_vm_state = \<lparr>vm_events = [], use_aslr = - 1, discard_virtual_memory = - 1\<rparr>"

definition VirtualAlloc ::
  "'a::len word vm_os \<Rightarrow> 'a word \<Rightarrow> 'a word \<Rightarrow> DWORD \<Rightarrow> DWORD \<Rightarrow> 'a word vm_state
   \<Rightarrow> 'a word \<times> 'a word vm_state" where
  "VirtualAlloc os lpAddress dwSize flAllocationType flProtect s =
     (let r = os_VirtualAlloc os (vm_events s) lpAddress dwSize flAllocationType flProtect
      in (r, s\<lparr>vm_events := vm_events s @ [EvVirtualAlloc lpAddress dwSize flAllocationType flProtect r]\<rparr>))"

definition VirtualFree ::
  "'a::len word vm_os \<Rightarrow> 'a word \<Rightarrow> 'a word \<Rightarrow> DWORD \<Rightarrow> 'a word vm_state
   \<Rightarrow> bool \<times> 'a word vm_state" where
  "VirtualFree os lpAddress dwSize dwFreeType s =
     (let r = os_VirtualFree os (vm_events s) lpAddress dwSize dwFreeType
      in (r, s\<lparr>vm_events := vm_events s @ [EvVirtualFree lpAddress dwSize dwFreeType r]\<rparr>))"

definition DiscardVirtualMemory ::
  "'a::len word vm_os \<Rightarrow> 'a word \<Rightarrow> 'a word \<Rightarrow> 'a word vm_state \<Rightarrow> DWORD \<times> 'a word vm_state" where
  "DiscardVirtualMemory os address size' s =
     (let r = os_DiscardVirtualMemory os (vm_events s) address size'
      in (r, s\<lparr>vm_events := vm_events s @ [EvDiscardVirtualMemory address size' r]\<rparr>))"

text \<open>
  \<open>OS::AllocatePageSize\<close> and \<open>OS::CommitPageSize\<close>. Each caches the value of
  \<open>GetSystemInfo\<close> in a static; as the value is constant the cache is not
  modelled. \<open>CommitPageSize\<close> holds \<open>DCHECK_EQ(4096, page_size)\<close>.
\<close>

definition AllocatePageSize :: "'a::len word vm_os \<Rightarrow> 'a word" where
  "AllocatePageSize os = ucast (dwAllocationGranularity os)"

definition CommitPageSize :: "'a::len word vm_os \<Rightarrow> 'a word outcome" where
  "CommitPageSize os =
     (if DEBUG os \<and> dwPageSize os \<noteq> 4096 then Abort else Return (ucast (dwPageSize os)))"

definition GetProtectionFromMemoryPermission :: "'a::len word vm_os \<Rightarrow> MemoryPermission \<Rightarrow> DWORD" where
  "GetProtectionFromMemoryPermission os access =
     (case access of
        kNoAccess \<Rightarrow> PAGE_NOACCESS
      | kNoAccessWillJitLater \<Rightarrow> PAGE_NOACCESS
      | kRead \<Rightarrow> PAGE_READONLY
      | kReadWrite \<Rightarrow> PAGE_READWRITE
      | kReadWriteExecute \<Rightarrow>
          if os_IsWindows10OrGreater os then PAGE_EXECUTE_READWRITE OR PAGE_TARGETS_INVALID
          else PAGE_EXECUTE_READWRITE
      | kReadExecute \<Rightarrow>
          if os_IsWindows10OrGreater os then PAGE_EXECUTE_READ OR PAGE_TARGETS_INVALID
          else PAGE_EXECUTE_READ)"

text \<open>
  \<open>RandomizedVirtualAlloc\<close>. On a 32-bit host \<open>use_aslr\<close> is settled once by
  \<open>IsWow64Process\<close> (and is \<open>FALSE\<close> when that call fails); otherwise it is
  \<open>TRUE\<close>.
\<close>

definition RandomizedVirtualAlloc ::
  "'a::len word vm_os \<Rightarrow> 'a word \<Rightarrow> DWORD \<Rightarrow> DWORD \<Rightarrow> 'a word \<Rightarrow> 'a word vm_state
   \<Rightarrow> 'a word \<times> 'a word vm_state" where
  "RandomizedVirtualAlloc os size' flags protect hint s =
     (let s = (if V8_HOST_ARCH_32_BIT os
               then (if use_aslr s = - 1
                     then (let (ok, wow64) = os_IsWow64Process os
                           in if \<not> ok then s\<lparr>use_aslr := 0\<rparr> else s\<lparr>use_aslr := wow64\<rparr>)
                     else s)
               else s\<lparr>use_aslr := 1\<rparr>);
          (base, s) = (if use_aslr s \<noteq> 0 \<and> protect \<noteq> PAGE_READWRITE
                       then VirtualAlloc os hint size' flags protect s
                       else (0, s))
      in if base = 0 then VirtualAlloc os 0 size' flags protect s else (base, s))"

text \<open>
  \<open>OS::Free\<close>: two \<open>DCHECK\<close>s, then \<open>VirtualFree(address, 0, MEM_RELEASE)\<close>.
  (The remainders are taken with a non-zero page size; \<open>x mod 0\<close> is \<open>x\<close> here,
  where the C++ division would trap.)
\<close>

definition Free ::
  "'a::len word vm_os \<Rightarrow> 'a word \<Rightarrow> 'a word \<Rightarrow> 'a word vm_state \<Rightarrow> bool outcome \<times> 'a word vm_state" where
  "Free os address size' s =
     (if DEBUG os \<and> address mod AllocatePageSize os \<noteq> 0 then (Abort, s)
      else if DEBUG os \<and> size' mod AllocatePageSize os \<noteq> 0 then (Abort, s)
      else let (ok, s) = VirtualFree os address 0 MEM_RELEASE s in (Return ok, s))"

definition Release ::
  "'a::len word vm_os \<Rightarrow> 'a word \<Rightarrow> 'a word \<Rightarrow> 'a word vm_state \<Rightarrow> bool outcome \<times> 'a word vm_state" where
  "Release os address size' s =
     (if DEBUG os \<and> (case CommitPageSize os of Abort \<Rightarrow> True | Return p \<Rightarrow> address mod p \<noteq> 0)
      then (Abort, s)
      else if DEBUG os \<and> (case CommitPageSize os of Abort \<Rightarrow> True | Return p \<Rightarrow> size' mod p \<noteq> 0)
      then (Abort, s)
      else let (ok, s) = VirtualFree os address size' MEM_DECOMMIT s in (Return ok, s))"

definition SetPermissions ::
  "'a::len word vm_os \<Rightarrow> 'a word \<Rightarrow> 'a word \<Rightarrow> MemoryPermission \<Rightarrow> 'a word vm_state
   \<Rightarrow> bool outcome \<times> 'a word vm_state" where
  "SetPermissions os address size' access s =
     (if DEBUG os \<and> (case CommitPageSize os of Abort \<Rightarrow> True | Return p \<Rightarrow> address mod p \<noteq> 0)
      then (Abort, s)
      else if DEBUG os \<and> (case CommitPageSize os of Abort \<Rightarrow> True | Return p \<Rightarrow> size' mod p \<noteq> 0)
      then (Abort, s)
      else if access = kNoAccess
      then (let (ok, s) = VirtualFree os address size' MEM_DECOMMIT s in (Return ok, s))
      else let protect = GetProtectionFromMemoryPermission os access;
               (r, s) = VirtualAlloc os address size' MEM_COMMIT protect s
           in (Return (r \<noteq> 0), s))"

text \<open>
  \<open>OS::DiscardSystemPages\<close>: the address of \<open>DiscardVirtualMemory\<close> is looked up
  once; when the function is there and returns 0 the call is done; otherwise
  \<open>VirtualAlloc\<close> with \<open>MEM_RESET\<close> is tried and \<open>CHECK(ptr)\<close> aborts when it
  fails.
\<close>

definition DiscardSystemPages ::
  "'a::len word vm_os \<Rightarrow> 'a word \<Rightarrow> 'a word \<Rightarrow> 'a word vm_state \<Rightarrow> bool outcome \<times> 'a word vm_state" where
  "DiscardSystemPages os address size' s =
     (let s = (if discard_virtual_memory s = - 1
               then s\<lparr>discard_virtual_memory := os_GetProcAddress_DiscardVirtualMemory os\<rparr>
               else s);
          discard_function = discard_virtual_memory s;
          (done, s) = (if discard_function \<noteq> 0
                       then (let (ret, s) = DiscardVirtualMemory os address size' s in (ret = 0, s))
                       else (False, s))
      in if done then (Return True, s)
         else let (ptr, s) = VirtualAlloc os address size' MEM_RESET PAGE_READWRITE s
              in if ptr = 0 then (Abort, s) else (Return (ptr \<noteq> 0), s))"

text \<open>
  \<open>OS::Allocate\<close>. \<open>Allocate_finish\<close> is the end of the function
  (\<open>DCHECK_IMPLIES(base, base == aligned_base)\<close> and the \<open>return\<close>);
  \<open>Allocate_flags\<close> is the initialiser of its local \<open>flags\<close>;
  \<open>Allocate_loop\<close> is the \<open>for\<close> loop from counter \<open>i\<close> on, with the current
  values of \<open>base\<close> and \<open>aligned_base\<close>, followed by the end of the function.
\<close>

definition Allocate_flags :: "MemoryPermission \<Rightarrow> DWORD" where
  "Allocate_flags access = (if access = kNoAccess then MEM_RESERVE else MEM_RESERVE OR MEM_COMMIT)"

definition kMaxAttempts :: int where
  "kMaxAttempts = 3"

definition Allocate_finish ::
  "'a::len word vm_os \<Rightarrow> 'a word \<Rightarrow> 'a word \<Rightarrow> 'a word vm_state \<Rightarrow> 'a word outcome \<times> 'a word vm_state" where
  "Allocate_finish os base aligned_base s =
     (if DEBUG os \<and> base \<noteq> 0 \<and> base \<noteq> aligned_base then (Abort, s) else (Return base, s))"

function Allocate_loop ::
  "'a::len word vm_os \<Rightarrow> 'a word \<Rightarrow> 'a word \<Rightarrow> DWORD \<Rightarrow> DWORD \<Rightarrow> 'a word \<Rightarrow> 'a word \<Rightarrow> int
   \<Rightarrow> 'a word \<Rightarrow> 'a word \<Rightarrow> 'a word vm_state \<Rightarrow> 'a word outcome \<times> 'a word vm_state" where
  "Allocate_loop os size' alignment flags protect hint padded_size i base aligned_base s =
     (if i < kMaxAttempts
      then (case RandomizedVirtualAlloc os padded_size flags protect hint s of
              (base, s) \<Rightarrow>
                if base = 0 then (Return 0, s)
                else (case Free os base padded_size s of
                        (Abort, s) \<Rightarrow> (Abort, s)
                      | (Return ok, s) \<Rightarrow>
                          if \<not> ok then (Abort, s)
                          else (case VirtualAlloc os (RoundUp os base alignment) size' flags protect s of
                                  (base', s) \<Rightarrow>
                                    if base' \<noteq> 0
                                    then Allocate_finish os base' (RoundUp os base alignment) s
                                    else Allocate_loop os size' alignment flags protect hint padded_size
                                           (i + 1) base' (RoundUp os base alignment) s)))
      else Allocate_finish os base aligned_base s)"
  by pat_completeness auto
termination
  by (relation "measure (\<lambda>(os, size', alignment, flags, protect, hint, padded_size, i, base, aligned_base, s).
                  nat (kMaxAttempts - i))") auto

declare Allocate_loop.simps [simp del]

definition Allocate ::
  "'a::len word vm_os \<Rightarrow> 'a word \<Rightarrow> 'a word \<Rightarrow> 'a word \<Rightarrow> MemoryPermission \<Rightarrow> 'a word vm_state
   \<Rightarrow> 'a word outcome \<times> 'a word vm_state" where
  "Allocate os hint size' alignment access s =
     (let page_size = AllocatePageSize os in
      if DEBUG os \<and> size' mod page_size \<noteq> 0 then (Abort, s)
      else if DEBUG os \<and> alignment mod page_size \<noteq> 0 then (Abort, s)
      else if DEBUG os \<and> \<not> page_size \<le> alignment then (Abort, s)
      else
        let hint = AlignedAddress os hint alignment;
            flags = Allocate_flags access;
            protect = GetProtectionFromMemoryPermission os access
        in case RandomizedVirtualAlloc os size' flags protect hint s of
             (base, s) \<Rightarrow>
               if base = 0 then (Return 0, s)
               else if base = RoundUp os base alignment then (Return base, s)
               else (case Free os base size' s of
                       (Abort, s) \<Rightarrow> (Abort, s)
                     | (Return ok, s) \<Rightarrow>
                         if \<not> ok then (Abort, s)
                         else Allocate_loop os size' alignment flags protect 0
                                (size' + (alignment - page_size)) 0 base 0 s))"

text \<open>
  The padded retry as the specification words it, read off the record of calls.
  \<open>retry_attempts up padded_size size flags protect es\<close> is \<open>Some n\<close> when \<open>es\<close>
  is a sequence of \<open>n\<close> attempts, each of which
  \<^item> requests \<open>padded_size\<close> bytes with no hint (once, or a second time when the
    first request returned null), and ends the sequence when that fails;
  \<^item> frees the padded region \<open>b\<close> it got (\<open>VirtualFree(b, 0, MEM_RELEASE)\<close>,
    successfully);
  \<^item> requests exactly \<open>size\<close> bytes pinned at the aligned sub-address \<open>up b\<close>,
    and ends the sequence when that succeeds.
  It is \<open>None\<close> for any other sequence of calls. \<open>vm_result\<close> is the address a
  call returned.
\<close>

fun retry_attempts ::
    "('p \<Rightarrow> 'p) \<Rightarrow> 'p \<Rightarrow> 'p \<Rightarrow> DWORD \<Rightarrow> DWORD \<Rightarrow> ('p::zero) vm_event list \<Rightarrow> nat option"
  and retry_trim ::
    "('p \<Rightarrow> 'p) \<Rightarrow> 'p \<Rightarrow> 'p \<Rightarrow> DWORD \<Rightarrow> DWORD \<Rightarrow> 'p \<Rightarrow> ('p::zero) vm_event list \<Rightarrow> nat option"
where
  "retry_attempts up ps sz fl pr [] = Some 0"
| "retry_attempts up ps sz fl pr (EvVirtualAlloc a s f p r # es) =
     (if a = 0 \<and> s = ps \<and> f = fl \<and> p = pr
      then (if r \<noteq> 0 then retry_trim up ps sz fl pr r es
            else (case es of
                    [] \<Rightarrow> Some 1
                  | EvVirtualAlloc a' s' f' p' r' # es' \<Rightarrow>
                      if a' = 0 \<and> s' = ps \<and> f' = fl \<and> p' = pr
                      then (if r' \<noteq> 0 then retry_trim up ps sz fl pr r' es'
                            else if es' = [] then Some 1 else None)
                      else None
                  | _ \<Rightarrow> None))
      else None)"
| "retry_attempts up ps sz fl pr (EvVirtualFree a s t ok # es) = None"
| "retry_attempts up ps sz fl pr (EvDiscardVirtualMemory a s r # es) = None"
| "retry_trim up ps sz fl pr b (EvVirtualFree a s t ok # EvVirtualAlloc a2 s2 f2 p2 r2 # es) =
     (if a = b \<and> s = 0 \<and> t = MEM_RELEASE \<and> ok \<and> a2 = up b \<and> s2 = sz \<and> f2 = fl \<and> p2 = pr
      then (if r2 \<noteq> 0 then (if es = [] then Some 1 else None)
            else map_option Suc (retry_attempts up ps sz fl pr es))
      else None)"
| "retry_trim up ps sz fl pr b es = None"


text \<open>Whether a call is \<open>VirtualAlloc\<close> with the given allocation type and protection.\<close>

fun allocates_with :: "DWORD \<Rightarrow> DWORD \<Rightarrow> 'p vm_event \<Rightarrow> bool" where
  "allocates_with fl pr (EvVirtualAlloc a s f p r) = (f = fl \<and> p = pr)"
| "allocates_with fl pr (EvVirtualFree a s t ok) = True"
| "allocates_with fl pr (EvDiscardVirtualMemory a s r) = True"

text \<open>
  The two helpers of macros.h as the V8 code base defines them, by masking:
  \<open>RoundDown(x, m)\<close> is \<open>x & -m\<close>, \<open>RoundUp(x, m)\<close> is
  \<open>RoundDown(x + (m - 1), m)\<close>, and \<open>AlignedAddress(address, alignment)\<close> is
  \<open>address & ~(alignment - 1)\<close>, all in the unsigned arithmetic of the pointer
  width. They are written for a power of two \<open>m\<close>.
\<close>

definition macros_RoundDown :: "'a::len word \<Rightarrow> 'a word \<Rightarrow> 'a word" where
  "macros_RoundDown x m = x AND - m"

definition macros_RoundUp :: "'a::len word \<Rightarrow> 'a word \<Rightarrow> 'a word" where
  "macros_RoundUp x m = macros_RoundDown (x + (m - 1)) m"

definition macros_AlignedAddress :: "'a::len word \<Rightarrow> 'a word \<Rightarrow> 'a word" where
  "macros_AlignedAddress address alignment = address AND NOT (alignment - 1)"

text \<open>
  Example environments on a 64-bit host, release build, with an allocation
  granularity of 64 KiB and the helpers above. \<open>obliging_os\<close> grants every
  request: a pinned one at its address, any other at \<open>0x250000\<close>.
  \<open>refusing_os\<close> has no \<open>DiscardVirtualMemory\<close> and refuses every request.
  \<open>one_region_os\<close> grants the first request of the process at \<open>0x250000\<close> and
  refuses every later one.
\<close>

definition obliging_os :: "64 word vm_os" where
  "obliging_os = \<lparr>DEBUG = False, V8_HOST_ARCH_32_BIT = False,
     RoundUp = macros_RoundUp, AlignedAddress = macros_AlignedAddress,
     os_IsWindows10OrGreater = True, dwAllocationGranularity = 0x10000, dwPageSize = 0x1000,
     os_IsWow64Process = (True, 0),
     os_VirtualAlloc = (\<lambda>h a s f p. if a = 0 then 0x250000 else a),
     os_VirtualFree = (\<lambda>h a s t. True),
     os_GetProcAddress_DiscardVirtualMemory = 0,
     os_DiscardVirtualMemory = (\<lambda>h a s. 0)\<rparr>"

definition refusing_os :: "64 word vm_os" where
  "refusing_os = obliging_os\<lparr>os_VirtualAlloc := (\<lambda>h a s f p. 0)\<rparr>"

definition one_region_os :: "64 word vm_os" where
  "one_region_os = obliging_os\<lparr>os_VirtualAlloc := (\<lambda>h a s f p. if h = [] then 0x250000 else 0)\<rparr>"

section \<open>Memory-mapped files\<close>

datatype FileMode = FileMode_kReadOnly | FileMode_kReadWrite

text \<open>Constants of the Windows SDK used by the two factory functions.\<close>

definition INVALID_HANDLE_VALUE :: "'a::len word" where "INVALID_HANDLE_VALUE = - 1"
definition GENERIC_READ :: DWORD where "GENERIC_READ = 0x80000000"
definition GENERIC_WRITE :: DWORD where "GENERIC_WRITE = 0x40000000"
definition FILE_SHARE_READ :: DWORD where "FILE_SHARE_READ = 0x1"
definition FILE_SHARE_WRITE :: DWORD where "FILE_SHARE_WRITE = 0x2"
definition OPEN_EXISTING :: DWORD where "OPEN_EXISTING = 3"
definition OPEN_ALWAYS :: DWORD where "OPEN_ALWAYS = 4"
definition FILE_MAP_READ :: DWORD where "FILE_MAP_READ = 0x4"
definition FILE_MAP_ALL_ACCESS :: DWORD where "FILE_MAP_ALL_ACCESS = 0xF001F"

text \<open>
  The calls on files, recorded with their arguments and results (handles and
  pointers are words of the pointer width):
  \<^item> \<open>EvCreateFileA name access share disposition handle\<close>
  \<^item> \<open>EvGetFileSize file size\<close>
  \<^item> \<open>EvCreateFileMapping file protection size_low mapping\<close>
  \<^item> \<open>EvMapViewOfFile mapping access bytes view\<close>
  \<^item> \<open>EvMemmove dest src n\<close>, \<open>EvUnmapViewOfFile view\<close>, \<open>EvCloseHandle handle\<close>
\<close>

datatype 'p file_event =
    EvCreateFileA string DWORD DWORD DWORD 'p
  | EvGetFileSize 'p DWORD
  | EvCreateFileMapping 'p DWORD DWORD 'p
  | EvMapViewOfFile 'p DWORD 'p 'p
  | EvMemmove 'p 'p 'p
  | EvUnmapViewOfFile 'p
  | EvCloseHandle 'p

text \<open>
  The results of the four calls that can fail; each may depend on the calls made
  before it.
\<close>

record 'p file_os =
  os_CreateFileA :: "'p file_event list \<Rightarrow> string \<Rightarrow> DWORD \<Rightarrow> DWORD \<Rightarrow> DWORD \<Rightarrow> 'p"
  os_GetFileSize :: "'p file_event list \<Rightarrow> 'p \<Rightarrow> DWORD"
  os_CreateFileMapping :: "'p file_event list \<Rightarrow> 'p \<Rightarrow> DWORD \<Rightarrow> DWORD \<Rightarrow> 'p"
  os_MapViewOfFile :: "'p file_event list \<Rightarrow> 'p \<Rightarrow> DWORD \<Rightarrow> 'p \<Rightarrow> 'p"

text \<open>
  \<open>Win32MemoryMappedFile\<close>, with its members \<open>file_\<close>, \<open>file_mapping_\<close>,
  \<open>memory_\<close> and \<open>size_\<close>. A factory function returns \<open>None\<close> for \<open>nullptr\<close>
  and \<open>Some\<close> object for \<open>new Win32MemoryMappedFile(...)\<close>, together with the
  extended record of calls.
\<close>

record 'p Win32MemoryMappedFile =
  m_file :: 'p
  m_file_mapping :: 'p
  m_memory :: 'p
  m_size :: 'p

definition MemoryMappedFile_open ::
  "'a::len word file_os \<Rightarrow> string \<Rightarrow> FileMode \<Rightarrow> 'a word file_event list
   \<Rightarrow> 'a word Win32MemoryMappedFile option \<times> 'a word file_event list" where
  "MemoryMappedFile_open os name mode es =
     (let access = (if mode = FileMode_kReadWrite then GENERIC_READ OR GENERIC_WRITE else GENERIC_READ);
          file = os_CreateFileA os es name access (FILE_SHARE_READ OR FILE_SHARE_WRITE) OPEN_EXISTING;
          es = es @ [EvCreateFileA name access (FILE_SHARE_READ OR FILE_SHARE_WRITE) OPEN_EXISTING file]
      in if file = INVALID_HANDLE_VALUE then (None, es)
         else
           let size' = os_GetFileSize os es file;
               es = es @ [EvGetFileSize file size']
           in if size' = 0
              then (Some \<lparr>m_file = file, m_file_mapping = 0, m_memory = 0, m_size = 0\<rparr>, es)
              else
                let protection = (if mode = FileMode_kReadOnly then PAGE_READONLY else PAGE_READWRITE);
                    file_mapping = os_CreateFileMapping os es file protection size';
                    es = es @ [EvCreateFileMapping file protection size' file_mapping]
                in if file_mapping = 0 then (None, es)
                   else
                     let view_access = (if mode = FileMode_kReadOnly then FILE_MAP_READ
                                        else FILE_MAP_ALL_ACCESS);
                         memory = os_MapViewOfFile os es file_mapping view_access (ucast size');
                         es = es @ [EvMapViewOfFile file_mapping view_access (ucast size') memory]
                     in (Some \<lparr>m_file = file, m_file_mapping = file_mapping, m_memory = memory,
                               m_size = ucast size'\<rparr>, es))"

text \<open>
  \<open>MemoryMappedFile::create\<close>. Its test after \<open>CreateFileA\<close> is
  \<open>file == nullptr\<close>.
\<close>

definition MemoryMappedFile_create ::
  "'a::len word file_os \<Rightarrow> string \<Rightarrow> 'a word \<Rightarrow> 'a word \<Rightarrow> 'a word file_event list
   \<Rightarrow> 'a word Win32MemoryMappedFile option \<times> 'a word file_event list" where
  "MemoryMappedFile_create os name size' initial es =
     (let file = os_CreateFileA os es name (GENERIC_READ OR GENERIC_WRITE)
                   (FILE_SHARE_READ OR FILE_SHARE_WRITE) OPEN_ALWAYS;
          es = es @ [EvCreateFileA name (GENERIC_READ OR GENERIC_WRITE)
                       (FILE_SHARE_READ OR FILE_SHARE_WRITE) OPEN_ALWAYS file]
      in if file = 0 then (None, es)
         else if size' = 0
         then (Some \<lparr>m_file = file, m_file_mapping = 0, m_memory = 0, m_size = 0\<rparr>, es)
         else
           let file_mapping = os_CreateFileMapping os es file PAGE_READWRITE (ucast size');
               es = es @ [EvCreateFileMapping file PAGE_READWRITE (ucast size') file_mapping]
           in if file_mapping = 0 then (None, es)
              else
                let memory = os_MapViewOfFile os es file_mapping FILE_MAP_ALL_ACCESS size';
                    es = es @ [EvMapViewOfFile file_mapping FILE_MAP_ALL_ACCESS size' memory];
                    es = (if memory \<noteq> 0 then es @ [EvMemmove memory initial size'] else es)
                in (Some \<lparr>m_file = file, m_file_mapping = file_mapping, m_memory = memory,
                          m_size = size'\<rparr>, es))"

text \<open>The destructor \<open>~Win32MemoryMappedFile\<close>: the calls it makes, in order.\<close>

definition Win32MemoryMappedFile_destroy :: "'a::len word Win32MemoryMappedFile \<Rightarrow> 'a word file_event list" where
  "Win32MemoryMappedFile_destroy f =
     (if m_memory f \<noteq> 0 then [EvUnmapViewOfFile (m_memory f)] else [])
     @ (if m_file_mapping f \<noteq> 0 then [EvCloseHandle (m_file_mapping f)] else [])
     @ [EvCloseHandle (m_file f)]"

text \<open>
  Reading the record of calls: \<open>creation_failed\<close> holds of a failed
  \<open>CreateFileA\<close> (result \<open>INVALID_HANDLE_VALUE\<close>) and of a failed \<open>CreateFileMapping\<close>
  (result null); \<open>view_failed\<close> of a failed \<open>MapViewOfFile\<close>; \<open>zero_length\<close> of a
  \<open>GetFileSize\<close> that reports 0; \<open>acquired\<close> lists the handles and views the calls
  returned successfully, latest first.
\<close>

fun creation_failed :: "'a::len word file_event \<Rightarrow> bool" where
  "creation_failed (EvCreateFileA n a sh d h) = (h = INVALID_HANDLE_VALUE)"
| "creation_failed (EvCreateFileMapping f p sz m) = (m = 0)"
| "creation_failed _ = False"

fun view_failed :: "'a::len word file_event \<Rightarrow> bool" where
  "view_failed (EvMapViewOfFile m a n v) = (v = 0)"
| "view_failed _ = False"

fun zero_length :: "'a::len word file_event \<Rightarrow> bool" where
  "zero_length (EvGetFileSize f sz) = (sz = 0)"
| "zero_length _ = False"

fun acquired :: "'a::len word file_event list \<Rightarrow> 'a word file_event list" where
  "acquired [] = []"
| "acquired (EvCreateFileA n a sh d h # es) =
     acquired es @ (if h = INVALID_HANDLE_VALUE then [] else [EvCloseHandle h])"
| "acquired (EvCreateFileMapping f p sz m # es) =
     acquired es @ (if m = 0 then [] else [EvCloseHandle m])"
| "acquired (EvMapViewOfFile m a n v # es) =
     acquired es @ (if v = 0 then [] else [EvUnmapViewOfFile v])"
| "acquired (_ # es) = acquired es"

text \<open>
  Example environments: in \<open>unmappable_os\<close> a file of 4096 bytes opens and gets
  a mapping object, but no view of it can be mapped; in \<open>no_file_os\<close>
  \<open>CreateFileA\<close> fails.
\<close>

definition unmappable_os :: "64 word file_os" where
  "unmappable_os = \<lparr>os_CreateFileA = (\<lambda>h n a s d. 0x100), os_GetFileSize = (\<lambda>h f. 4096),
     os_CreateFileMapping = (\<lambda>h f p sz. 0x104), os_MapViewOfFile = (\<lambda>h m a n. 0)\<rparr>"

definition no_file_os :: "64 word file_os" where
  "no_file_os = unmappable_os\<lparr>os_CreateFileA := (\<lambda>h n a s d. INVALID_HANDLE_VALUE)\<rparr>"

section \<open>Shared library addresses\<close>

record 'p MODULEENTRY32W =
  szExePath :: "16 word list"
  szModule :: "16 word list"
  modBaseAddr :: 'p
  modBaseSize :: DWORD

text \<open>\<open>OS::SharedLibraryAddress(library_path, start, end)\<close>.\<close>

record 'p SharedLibraryAddress =
  library_path :: string
  start :: 'p
  end_address :: 'p

definition SYMOPT_LOAD_LINES :: DWORD where "SYMOPT_LOAD_LINES = 0x10"
definition SYMOPT_FAIL_CRITICAL_ERRORS :: DWORD where "SYMOPT_FAIL_CRITICAL_ERRORS = 0x200"
definition ERROR_MOD_NOT_FOUND :: int where "ERROR_MOD_NOT_FOUND = 126"
definition ERROR_INVALID_HANDLE :: int where "ERROR_INVALID_HANDLE = 6"

text \<open>
  The calls made while loading the libraries and the symbols, with their
  results: a module handle or function address (0 for null), a \<open>BOOL\<close> as
  \<open>bool\<close>. \<open>EvPrint err\<close> is \<open>OS::Print("%d\n", err)\<close>.
\<close>

datatype 'p dbg_event =
    EvLoadLibrary string 'p
  | EvGetProcAddress 'p string 'p
  | EvSymInitialize bool
  | EvSymGetOptions DWORD
  | EvSymSetOptions DWORD DWORD
  | EvSymGetSearchPath bool
  | EvGetLastError int
  | EvPrint int
  | EvCreateToolhelp32Snapshot bool
  | EvModule32FirstW bool
  | EvModule32NextW bool
  | EvSymLoadModule64 "'p MODULEENTRY32W" "64 word"
  | EvCloseSnapshot

text \<open>
  The operating system as these functions see it. Every result may depend on
  the calls made so far. A Toolhelp snapshot is the finite list of module entries
  that \<open>Module32FirstW\<close> and \<open>Module32NextW\<close> walk through (\<open>None\<close> for
  \<open>INVALID_HANDLE_VALUE\<close>). \<open>os_WideCharToMultiByte\<close> gives the bytes written for a
  NUL-terminated wide string, the terminator included. (The functions are those
  of a build without \<open>__MINGW32__\<close>; with it \<open>GetSharedLibraryAddresses\<close>
  returns an empty vector and calls nothing.)
\<close>

record 'p dbg_os =
  os_LoadLibrary :: "'p dbg_event list \<Rightarrow> string \<Rightarrow> 'p"
  os_GetProcAddress :: "'p dbg_event list \<Rightarrow> 'p \<Rightarrow> string \<Rightarrow> 'p"
  os_SymInitialize :: "'p dbg_event list \<Rightarrow> bool"
  os_SymGetOptions :: "'p dbg_event list \<Rightarrow> DWORD"
  os_SymSetOptions :: "'p dbg_event list \<Rightarrow> DWORD \<Rightarrow> DWORD"
  os_SymGetSearchPath :: "'p dbg_event list \<Rightarrow> bool"
  os_GetLastError :: "'p dbg_event list \<Rightarrow> int"
  os_CreateToolhelp32Snapshot :: "'p dbg_event list \<Rightarrow> 'p MODULEENTRY32W list option"
  os_SymLoadModule64 :: "'p dbg_event list \<Rightarrow> 'p MODULEENTRY32W \<Rightarrow> 64 word"
  os_WideCharToMultiByte :: "16 word list \<Rightarrow> string"

text \<open>
  The statics: \<open>dbghelp_loaded\<close> of \<open>LoadDbgHelpAndTlHelp32\<close>, the function
  pointers \<open>_SymInitialize\<close>, ... (one per name of the two function lists, null
  at first), and \<open>symbols_loaded\<close> and \<open>result\<close> of \<open>LoadSymbols\<close>.
\<close>

record 'p dbg_state =
  dbg_events :: "'p dbg_event list"
  dbghelp_loaded :: bool
  dll_func :: "string \<Rightarrow> 'p"
  symbols_loaded :: bool
  LoadSymbols_result :: "'p SharedLibraryAddress list"




definition log_dbg :: "'p dbg_event \<Rightarrow> 'p dbg_state \<Rightarrow> 'p dbg_state" where
  "log_dbg ev s = s\<lparr>dbg_events := dbg_events s @ [ev]\<rparr>"




text \<open>
  The \<open>while (cont)\<close> loop of \<open>LoadSymbols\<close> over the entries left in the
  snapshot. It returns \<open>False\<close> when it left the function through
  \<open>result.clear(); return result;\<close> and \<open>True\<close> when \<open>Module32NextW\<close> reported
  the end.
\<close>

fun LoadSymbols_loop ::
  "'a::len word dbg_os \<Rightarrow> 'a word MODULEENTRY32W list \<Rightarrow> 'a word dbg_state \<Rightarrow> bool \<times> 'a word dbg_state" where
  "LoadSymbols_loop os [] s = (True, s)"
| "LoadSymbols_loop os (module_entry # entries) s =
     (let base = os_SymLoadModule64 os (dbg_events s) module_entry;
          s = log_dbg (EvSymLoadModule64 module_entry base) s;
          err = os_GetLastError os (dbg_events s);
          s = (if base = 0 then log_dbg (EvGetLastError err) s else s)
      in if base = 0 \<and> err \<noteq> ERROR_MOD_NOT_FOUND \<and> err \<noteq> ERROR_INVALID_HANDLE
         then (False, s\<lparr>LoadSymbols_result := []\<rparr>)
         else
           let lib_name = os_WideCharToMultiByte os (szExePath module_entry);
               s = s\<lparr>LoadSymbols_result := LoadSymbols_result s @
                      [\<lparr>library_path = lib_name, start = modBaseAddr module_entry,
                        end_address = modBaseAddr module_entry + ucast (modBaseSize module_entry)\<rparr>]\<rparr>;
               s = log_dbg (EvModule32NextW (entries \<noteq> [])) s
           in LoadSymbols_loop os entries s)"

definition LoadSymbols ::
  "'a::len word dbg_os \<Rightarrow> 'a word dbg_state \<Rightarrow> 'a word SharedLibraryAddress list \<times> 'a word dbg_state" where
  "LoadSymbols os s =
     (if symbols_loaded s then (LoadSymbols_result s, s)
      else
        let ok = os_SymInitialize os (dbg_events s);
            s = log_dbg (EvSymInitialize ok) s
        in if \<not> ok then (LoadSymbols_result s, s)
           else
             let options = os_SymGetOptions os (dbg_events s);
                 s = log_dbg (EvSymGetOptions options) s;
                 options = options OR SYMOPT_LOAD_LINES;
                 options = options OR SYMOPT_FAIL_CRITICAL_ERRORS;
                 options' = os_SymSetOptions os (dbg_events s) options;
                 s = log_dbg (EvSymSetOptions options options') s;
                 ok = os_SymGetSearchPath os (dbg_events s);
                 s = log_dbg (EvSymGetSearchPath ok) s
             in if \<not> ok
                then (let err = os_GetLastError os (dbg_events s);
                          s = log_dbg (EvGetLastError err) s;
                          s = log_dbg (EvPrint err) s
                      in (LoadSymbols_result s, s))
                else
                  (case os_CreateToolhelp32Snapshot os (dbg_events s) of
                     None \<Rightarrow> (LoadSymbols_result s, log_dbg (EvCreateToolhelp32Snapshot False) s)
                   | Some entries \<Rightarrow>
                       let s = log_dbg (EvCreateToolhelp32Snapshot True) s;
                           s = log_dbg (EvModule32FirstW (entries \<noteq> [])) s;
                           (finished, s) = LoadSymbols_loop os entries s
                       in if \<not> finished then (LoadSymbols_result s, s)
                          else
                            let s = log_dbg EvCloseSnapshot s;
                                s = s\<lparr>symbols_loaded := True\<rparr>
                            in (LoadSymbols_result s, s)))"




section \<open>Properties of the time zone cache\<close>

lemma InitializeIfNeeded_initialized:
  "initialized (InitializeIfNeeded os cache)"
  by (simp add: InitializeIfNeeded_def Let_def split: prod.split)

lemma InitializeIfNeeded_idem:
  "InitializeIfNeeded os' (InitializeIfNeeded os cache) = InitializeIfNeeded os cache"
  using InitializeIfNeeded_initialized [of os cache]
  by (simp add: InitializeIfNeeded_def [of os'])

lemma LocalOffset_cache:
  "snd (LocalOffset os t cache) = InitializeIfNeeded os cache"
  by (simp add: LocalOffset_def Let_def split: option.split)

text \<open>
  Claim C10. When the rules held by the cache (after \<open>InitializeIfNeeded\<close>) have
  no transition dates, that is the month of the standard date and the month of the
  daylight date are both zero, \<open>InDST\<close> is false for every timestamp, so
  \<open>DaylightSavingsOffset\<close> is 0 and \<open>LocalTimezone\<close> is the standard name,
  whatever \<open>LocalOffset\<close> would compute.
\<close>

theorem no_transition_dates_never_dst:
  assumes "wMonth (StandardDate (tzinfo (InitializeIfNeeded os cache))) = 0"
    and "wMonth (DaylightDate (tzinfo (InitializeIfNeeded os cache))) = 0"
  shows "fst (InDST os t cache) = False
       \<and> fst (DaylightSavingsOffset os t cache) = 0
       \<and> fst (LocalTimezone os t cache) = std_tz_name (InitializeIfNeeded os cache)"
  using assms
  by (simp add: InDST_def DaylightSavingsOffset_def LocalTimezone_def Let_def)

theorem no_transition_dates_never_dst_witness:
  "wMonth (StandardDate (tzinfo (InitializeIfNeeded fixed_zone_os new_WindowsTimezoneCache))) = 0
   \<and> wMonth (DaylightDate (tzinfo (InitializeIfNeeded fixed_zone_os new_WindowsTimezoneCache))) = 0
   \<and> fst (InDST fixed_zone_os (Win32Time 946684800000) new_WindowsTimezoneCache) = False
   \<and> fst (DaylightSavingsOffset fixed_zone_os (Win32Time 946684800000) new_WindowsTimezoneCache) = 0
   \<and> fst (LocalTimezone fixed_zone_os (Win32Time 946684800000) new_WindowsTimezoneCache)
       = ''Eastern Standard Time''"
proof -
  have init: "InitializeIfNeeded fixed_zone_os new_WindowsTimezoneCache
      = \<lparr>initialized = True, std_tz_name = ''Eastern Standard Time'',
         dst_tz_name = ''Eastern Daylight Time'',
         tzinfo = zero_TIME_ZONE_INFORMATION\<lparr>Bias := 300\<rparr>\<rparr>"
    by (simp add: InitializeIfNeeded_def fixed_zone_os_def new_WindowsTimezoneCache_def
        TIME_ZONE_ID_INVALID_def kTzNameSize_def SNPrintF_def GuessTimezoneNameFromBias_def)
  have m: "wMonth (StandardDate (tzinfo (InitializeIfNeeded fixed_zone_os new_WindowsTimezoneCache))) = 0"
    "wMonth (DaylightDate (tzinfo (InitializeIfNeeded fixed_zone_os new_WindowsTimezoneCache))) = 0"
    by (simp_all add: init zero_TIME_ZONE_INFORMATION_def zero_SYSTEMTIME_def)
  show ?thesis
    using no_transition_dates_never_dst [OF m, of "Win32Time 946684800000"] m
    by (simp add: init)
qed

lemma sdiv_nonneg: "0 \<le> k \<Longrightarrow> 0 < l \<Longrightarrow> k sdiv l = k div (l::int)"
  by (simp add: signed_divide_int_def sgn_if)

lemma sdiv_neg: "k < 0 \<Longrightarrow> 0 < l \<Longrightarrow> k sdiv l = - ((- k) div (l::int))"
  by (simp add: signed_divide_int_def sgn_if)

lemma word_of_int_sint_id: "word_of_int (sint w) = (w::'a::len word)"
  by simp

lemma sint64_of_int:
  "- 9223372036854775808 \<le> k \<Longrightarrow> k < 9223372036854775808 \<Longrightarrow> sint (word_of_int k :: int64_t) = k"
  by (simp add: sint_sbintrunc' signed_take_bit_int_eq_self)

lemma sint64_range: "- 9223372036854775808 \<le> sint (t::int64_t)" "sint (t::int64_t) < 9223372036854775808"
  using sint_ge [of t] sint_lt [of t] by simp_all

lemma int_div_le_nonneg: "0 \<le> x \<Longrightarrow> x div k \<le> (x::int)"
  using int_div_le_self [of x k] by (cases "x = 0") simp_all

lemma sint_int64_div_nonneg:
  assumes "0 \<le> sint a" "0 < l" "l < 9223372036854775808"
  shows "sint (int64_div a (word_of_int l)) = sint a div l"
proof -
  have l: "sint (word_of_int l :: int64_t) = l" using assms by (simp add: sint64_of_int)
  have "sint a div l \<le> sint a" using assms by (simp add: int_div_le_nonneg)
  moreover have "0 \<le> sint a div l" using assms by (simp add: pos_imp_zdiv_nonneg_iff)
  ultimately show ?thesis using assms sint64_range [of a]
    by (simp add: int64_div_def l sdiv_nonneg sint64_of_int)
qed

lemma sint_int64_div_neg:
  assumes "sint a < 0" "0 < l" "l < 9223372036854775808"
  shows "sint (int64_div a (word_of_int l)) = - ((- sint a) div l)"
proof -
  have l: "sint (word_of_int l :: int64_t) = l" using assms by (simp add: sint64_of_int)
  have "(- sint a) div l \<le> - sint a" using assms by (simp add: int_div_le_nonneg)
  moreover have "0 \<le> (- sint a) div l" using assms by (simp add: pos_imp_zdiv_nonneg_iff)
  moreover have "int64_div a (word_of_int l) = word_of_int (- ((- sint a) div l))"
    using assms by (simp add: int64_div_def l sdiv_neg)
  ultimately show ?thesis using assms sint64_range [of a]
      sint64_of_int [of "- ((- sint a) div l)"] by simp
qed


lemma rounded_nonneg:
  assumes "0 \<le> sint (t::int64_t)"
  shows "sint (int64_div (int64_div t 1000) kTimeScaler * 1000 * kTimeScaler)
         = sint t div 10000000 * 10000000"
proof -
  let ?T = "sint t"
  have q1: "sint (int64_div t 1000) = ?T div 1000"
    using sint_int64_div_nonneg [OF assms, of 1000] by simp
  have q1pos: "0 \<le> sint (int64_div t 1000)"
    using assms by (simp add: q1 pos_imp_zdiv_nonneg_iff)
  have q2: "sint (int64_div (int64_div t 1000) kTimeScaler) = ?T div 10000000"
    using sint_int64_div_nonneg [OF q1pos, of 10000] 
    by (simp add: kTimeScaler_def q1 zdiv_zmult2_eq [of 10000 ?T 1000, simplified, symmetric])
  have w: "int64_div (int64_div t 1000) 10000 = word_of_int (?T div 10000000)"
    using q2 unfolding kTimeScaler_def by (metis word_of_int_sint_id)
  have b1: "0 \<le> ?T div 10000000 * 10000000"
    using assms by (simp add: pos_imp_zdiv_nonneg_iff)
  have b2: "?T div 10000000 * 10000000 \<le> ?T"
    using div_mult_mod_eq [of ?T 10000000] pos_mod_sign [of 10000000 ?T] by linarith
  have e: "int64_div (int64_div t 1000) kTimeScaler * 1000 * kTimeScaler
        = word_of_int (?T div 10000000 * 10000000)"
    by (simp add: w kTimeScaler_def)
  have s: "sint (word_of_int (?T div 10000000 * 10000000) :: int64_t) = ?T div 10000000 * 10000000"
    by (rule sint64_of_int) (use b1 b2 sint64_range [of t] in linarith)+
  show ?thesis by (simp only: e s)
qed

lemma rounded_neg:
  assumes "sint (t::int64_t) < 0"
  shows "sint (int64_div (int64_div t 1000) kTimeScaler * 1000 * kTimeScaler)
         = - ((- sint t) div 10000000 * 10000000)"
proof -
  let ?T = "sint t"
  have q1: "sint (int64_div t 1000) = - ((- ?T) div 1000)"
    using sint_int64_div_neg [OF assms, of 1000] by simp
  have m1: "0 \<le> (- ?T) div 1000" using assms by (simp add: pos_imp_zdiv_nonneg_iff)
  have d: "(- ?T) div 1000 div 10000 = (- ?T) div 10000000"
    using zdiv_zmult2_eq [of 10000 "- ?T" 1000] by simp
  have q2: "sint (int64_div (int64_div t 1000) kTimeScaler) = - ((- ?T) div 10000000)"
  proof (cases "(- ?T) div 1000 = 0")
    case True
    then have "sint (int64_div t 1000) = 0" by (simp add: q1)
    then have "sint (int64_div (int64_div t 1000) kTimeScaler) = 0 div 10000"
      using sint_int64_div_nonneg [of "int64_div t 1000" 10000] by (simp add: kTimeScaler_def)
    then show ?thesis using d True by simp
  next
    case False
    then have "sint (int64_div t 1000) < 0" using m1 by (simp add: q1)
    then show ?thesis
      using sint_int64_div_neg [of "int64_div t 1000" 10000] d by (simp add: kTimeScaler_def q1)
  qed
  have w: "int64_div (int64_div t 1000) 10000 = word_of_int (- ((- ?T) div 10000000))"
    using q2 unfolding kTimeScaler_def by (metis word_of_int_sint_id)
  have b1: "0 \<le> (- ?T) div 10000000 * 10000000"
    using assms by (simp add: pos_imp_zdiv_nonneg_iff)
  have b2: "(- ?T) div 10000000 * 10000000 \<le> - ?T"
    using div_mult_mod_eq [of "- ?T" 10000000] pos_mod_sign [of 10000000 "- ?T"] by linarith
  have e: "int64_div (int64_div t 1000) kTimeScaler * 1000 * kTimeScaler
        = word_of_int (- ((- ?T) div 10000000 * 10000000))"
    by (simp add: w kTimeScaler_def)
  have s: "sint (word_of_int (- ((- ?T) div 10000000 * 10000000)) :: int64_t)
        = - ((- ?T) div 10000000 * 10000000)"
    by (rule sint64_of_int) (use b1 b2 sint64_range [of t] in linarith)+
  show ?thesis by (simp only: e s)
qed


lemma ToJSTime_no_wrap:
  assumes r: "sint (r::int64_t) = k * 10000000"
    and lo: "- 9223372036854775808 \<le> k * 10000000 - 116444736000000000"
  shows "ToJSTime r = (k - 11644473600) * 1000"
proof -
  let ?X = "k * 10000000 - 116444736000000000"
  have hi: "?X < 9223372036854775808" using sint64_range(2) [of r] r by linarith
  have "r - kTimeEpoc = word_of_int (sint r) - word_of_int 116444736000000000"
    by (simp only: word_of_int_sint_id kTimeEpoc_def) simp
  then have e: "r - kTimeEpoc = word_of_int ?X" by (simp add: r)
  have x: "sint (r - kTimeEpoc) = ?X"
    unfolding e by (rule sint64_of_int) (use lo hi in linarith)+
  have X: "?X = (k - 11644473600) * 1000 * 10000" by simp
  show ?thesis
  proof (cases "0 \<le> ?X")
    case True
    then have "sint (int64_div (r - kTimeEpoc) (word_of_int 10000)) = ?X div 10000"
      using sint_int64_div_nonneg [of "r - kTimeEpoc" 10000] x by simp
    also have "\<dots> = (k - 11644473600) * 1000" unfolding X by simp
    finally show ?thesis by (simp add: ToJSTime_def kTimeScaler_def)
  next
    case False
    then have "sint (int64_div (r - kTimeEpoc) (word_of_int 10000)) = - ((- ?X) div 10000)"
      using sint_int64_div_neg [of "r - kTimeEpoc" 10000] x by simp
    also have "- ?X = (11644473600 - k) * 1000 * 10000" by simp
    also have "- ((11644473600 - k) * 1000 * 10000 div 10000) = (k - 11644473600) * 1000" by simp
    finally show ?thesis by (simp add: ToJSTime_def kTimeScaler_def)
  qed
qed

lemma ToJSTime_wrap:
  assumes lo: "sint (r::int64_t) - 116444736000000000 < - 9223372036854775808"
  shows "2147483647000 < ToJSTime r"
proof -
  let ?X = "sint r - 116444736000000000"
  have "r - kTimeEpoc = word_of_int (sint r) - word_of_int 116444736000000000"
    by (simp only: word_of_int_sint_id kTimeEpoc_def) simp
  then have e: "r - kTimeEpoc = word_of_int ?X" by simp
  have m: "(?X + 9223372036854775808) mod 18446744073709551616 = ?X + 9223372036854775808 + 18446744073709551616"
  proof -
    have "(?X + 9223372036854775808) mod 18446744073709551616
          = (?X + 9223372036854775808 + 18446744073709551616) mod 18446744073709551616"
      by (simp only: mod_add_self2)
    also have "\<dots> = ?X + 9223372036854775808 + 18446744073709551616"
      by (rule mod_pos_pos_trivial) (use lo sint64_range(1) [of r] in linarith)+
    finally show ?thesis .
  qed
  have h: "sint (word_of_int ?X :: int64_t)
      = (?X + 9223372036854775808) mod 18446744073709551616 - 9223372036854775808"
    using int_word_sint [of ?X, where 'a = 64] by simp
  have "sint (r - kTimeEpoc)
      = ?X + 9223372036854775808 + 18446744073709551616 - 9223372036854775808"
    by (simp only: e h m)
  then have x: "sint (r - kTimeEpoc) = ?X + 18446744073709551616" by linarith
  have pos: "0 \<le> sint (r - kTimeEpoc)" using x sint64_range(1) [of r] by linarith
  have "sint (int64_div (r - kTimeEpoc) (word_of_int 10000)) = (?X + 18446744073709551616) div 10000"
    using sint_int64_div_nonneg [OF pos, of 10000] x by simp
  moreover have "9106927300854775808 div 10000 \<le> (?X + 18446744073709551616) div (10000::int)"
    by (rule zdiv_mono1) (use sint64_range(1) [of r] in linarith)+
  ultimately show ?thesis by (simp add: ToJSTime_def kTimeScaler_def)
qed


lemma spec_posix_seconds_eq:
  "spec_posix_seconds t = sint t div 10000000 - 11644473600"
proof -
  have "sint t - 116444736000000000 = sint t + (- 11644473600) * 10000000" by simp
  then have "(sint t - 116444736000000000) div 10000000 = - 11644473600 + sint t div 10000000"
    by (simp only: div_mult_self1 [of 10000000 "sint t" "- 11644473600", simplified])
  then show ?thesis by (simp add: spec_posix_seconds_def)
qed

lemma posix_guard:
  fixes t :: int64_t
  defines "u \<equiv> real_of_int (ToJSTime (int64_div (int64_div t 1000) kTimeScaler * 1000 * kTimeScaler)) / 1000"
  shows "(u > real_of_int INT_MAX \<or> u < 0)
         = (spec_posix_seconds t < 0 \<or> INT_MAX < spec_posix_seconds t)"
    and "\<not> (u > real_of_int INT_MAX \<or> u < 0) \<Longrightarrow> \<lfloor>u\<rfloor> = spec_posix_seconds t"
proof -
  let ?r = "int64_div (int64_div t 1000) kTimeScaler * 1000 * kTimeScaler"
  have "(u > real_of_int INT_MAX \<or> u < 0)
         = (spec_posix_seconds t < 0 \<or> INT_MAX < spec_posix_seconds t)
      \<and> (\<not> (u > real_of_int INT_MAX \<or> u < 0) \<longrightarrow> \<lfloor>u\<rfloor> = spec_posix_seconds t)"
  proof (cases "0 \<le> sint t")
    case True
    have q: "0 \<le> sint t div 10000000" using True by (simp add: pos_imp_zdiv_nonneg_iff)
    have "ToJSTime ?r = (sint t div 10000000 - 11644473600) * 1000"
      by (rule ToJSTime_no_wrap [OF rounded_nonneg [OF True]]) (use q in linarith)
    then have "u = real_of_int (spec_posix_seconds t)"
      by (simp add: u_def spec_posix_seconds_eq)
    then show ?thesis by (auto simp: INT_MAX_def)
  next
    case False
    then have neg: "sint t < 0" by simp
    have s: "spec_posix_seconds t < 0"
      using neg by (simp add: spec_posix_seconds_def div_neg_pos_less0)
    have r: "sint ?r = (- ((- sint t) div 10000000)) * 10000000"
      using rounded_neg [OF neg] by simp
    have m: "0 \<le> (- sint t) div 10000000" using neg by (simp add: pos_imp_zdiv_nonneg_iff)
    have "u > real_of_int INT_MAX \<or> u < 0"
    proof (cases "- 9223372036854775808 \<le> (- ((- sint t) div 10000000)) * 10000000 - 116444736000000000")
      case True
      have "ToJSTime ?r = (- ((- sint t) div 10000000) - 11644473600) * 1000"
        by (rule ToJSTime_no_wrap [OF r True])
      then have "ToJSTime ?r < 0" using m by simp
      then show ?thesis by (simp add: u_def)
    next
      case False
      then have "sint ?r - 116444736000000000 < - 9223372036854775808" using r by linarith
      then have "2147483647000 < ToJSTime ?r" by (rule ToJSTime_wrap)
      then have "real_of_int 2147483647000 < real_of_int (ToJSTime ?r)" by (simp only: of_int_less_iff)
      then show ?thesis by (simp add: u_def INT_MAX_def)
    qed
    then show ?thesis using s by simp
  qed
  then show "(u > real_of_int INT_MAX \<or> u < 0)
         = (spec_posix_seconds t < 0 \<or> INT_MAX < spec_posix_seconds t)"
    and "\<not> (u > real_of_int INT_MAX \<or> u < 0) \<Longrightarrow> \<lfloor>u\<rfloor> = spec_posix_seconds t"
    by blast+
qed

lemma sint_bias_ms:
  "sint (scast (b::LONG) * (- kMsPerMinute) :: int64_t) = - 60000 * sint b"
proof -
  have "scast b * (- kMsPerMinute) = (word_of_int (- 60000 * sint b) :: int64_t)"
    by (simp add: kMsPerMinute_def)
  moreover have "sint (word_of_int (- 60000 * sint b) :: int64_t) = - 60000 * sint b"
    by (rule sint64_of_int) (use sint_ge [of b] sint_lt [of b] in simp)+
  ultimately show ?thesis by (simp only:)
qed


lemma sint_bias_ms_neg:
  "sint (- (scast (b::LONG) * kMsPerMinute) :: int64_t) = - (60000 * sint b)"
  using sint_bias_ms [of b] by simp

lemma LocalOffset_eq:
  "LocalOffset os t cache =
     (let cache = InitializeIfNeeded os cache; p = spec_posix_seconds t in
      if p < 0 \<or> INT_MAX < p then (0, cache)
      else case localtime_s os (word_of_int p) of
             None \<Rightarrow> (0, cache)
           | Some b \<Rightarrow>
               if 0 < tm_isdst b
               then (scast (Bias (tzinfo cache) + DaylightBias (tzinfo cache)) * (- kMsPerMinute), cache)
               else if tm_isdst b = 0
               then (scast (Bias (tzinfo cache) + StandardBias (tzinfo cache)) * (- kMsPerMinute), cache)
               else (scast (Bias (tzinfo cache)) * (- kMsPerMinute), cache))"
  using posix_guard [of t]
  by (simp add: LocalOffset_def Let_def)

text \<open>
  Claim C8, as amended. For every timestamp \<open>t\<close>, \<open>LocalOffset\<close> works on
  \<open>t\<close> rounded down to whole seconds. It returns 0 when that second lies
  outside \<open>0 .. INT_MAX\<close> (the range of the 32-bit \<open>time_t\<close>) and also when
  \<open>localtime_s\<close> fails. Otherwise it returns, in milliseconds east of UTC,
  the daylight bias \<open>Bias + DaylightBias\<close> when the breakdown has
  \<open>tm_isdst > 0\<close>, the standard bias \<open>Bias + StandardBias\<close> when
  \<open>tm_isdst = 0\<close>, and the plain \<open>Bias\<close> when \<open>tm_isdst\<close> is negative
  (status unknown). The cache is left initialised.
\<close>

theorem LocalOffset_by_cases:
  "snd (LocalOffset os t cache) = InitializeIfNeeded os cache \<and>
   sint (fst (LocalOffset os t cache)) =
     (let tz = tzinfo (InitializeIfNeeded os cache); p = spec_posix_seconds t in
      if p < 0 \<or> INT_MAX < p then 0
      else case localtime_s os (word_of_int p) of
             None \<Rightarrow> 0
           | Some b \<Rightarrow>
               if 0 < tm_isdst b then - 60000 * sint (Bias tz + DaylightBias tz)
               else if tm_isdst b = 0 then - 60000 * sint (Bias tz + StandardBias tz)
               else - 60000 * sint (Bias tz))"
proof -
  let ?c = "InitializeIfNeeded os cache"
  let ?p = "spec_posix_seconds t"
  have cache: "snd (LocalOffset os t cache) = ?c"
    by (rule LocalOffset_cache)
  have out: "fst (LocalOffset os t cache) = 0" if "?p < 0 \<or> INT_MAX < ?p"
    using that by (simp add: LocalOffset_eq Let_def)
  have conv: "fst (LocalOffset os t cache) =
      (case localtime_s os (word_of_int ?p) of
         None \<Rightarrow> 0
       | Some b \<Rightarrow>
           if 0 < tm_isdst b then scast (Bias (tzinfo ?c) + DaylightBias (tzinfo ?c)) * (- kMsPerMinute)
           else if tm_isdst b = 0
           then scast (Bias (tzinfo ?c) + StandardBias (tzinfo ?c)) * (- kMsPerMinute)
           else scast (Bias (tzinfo ?c)) * (- kMsPerMinute))"
    if "\<not> (?p < 0 \<or> INT_MAX < ?p)"
    using that by (simp add: LocalOffset_eq Let_def split: option.split)
  show ?thesis
  proof (cases "?p < 0 \<or> INT_MAX < ?p")
    case True
    then show ?thesis using cache out by (simp add: Let_def)
  next
    case False
    then show ?thesis
      using cache conv [OF False] by (simp add: Let_def sint_bias_ms_neg split: option.split)
  qed
qed

lemma jan_2000: "spec_posix_seconds (Win32Time 946684800000) = 946684800"
  by (simp add: spec_posix_seconds_def Win32Time_def kTimeScaler_def kTimeEpoc_def)

lemma unknown_dst_os_init:
  "InitializeIfNeeded unknown_dst_os new_WindowsTimezoneCache
   = \<lparr>initialized = True, std_tz_name = ''Central Europe Standard Time'',
      dst_tz_name = ''Central Europe Daylight Time'',
      tzinfo = snd (GetTimeZoneInformation unknown_dst_os)\<rparr>"
  by (simp add: InitializeIfNeeded_def unknown_dst_os_def new_WindowsTimezoneCache_def
      TIME_ZONE_ID_INVALID_def kTzNameSize_def SNPrintF_def GuessTimezoneNameFromBias_def)

text \<open>
  Claim C8 as stated fails: on 2000-01-01 00:00:00 UTC, a second inside the
  representable range that \<open>localtime_s\<close> converts, with \<open>tm_isdst\<close> negative
  \<open>LocalOffset\<close> returns the plain bias (3600000 ms), which is neither the
  standard bias (1800000 ms) nor the daylight bias (7200000 ms) of the zone.
\<close>

theorem LocalOffset_unknown_dst_counterexample:
  "spec_posix_seconds (Win32Time 946684800000) = 946684800
   \<and> localtime_s unknown_dst_os 946684800 \<noteq> None
   \<and> sint (fst (LocalOffset unknown_dst_os (Win32Time 946684800000) new_WindowsTimezoneCache)) = 3600000
   \<and> - 60000 * sint (Bias (tzinfo (InitializeIfNeeded unknown_dst_os new_WindowsTimezoneCache))
                    + StandardBias (tzinfo (InitializeIfNeeded unknown_dst_os new_WindowsTimezoneCache)))
       = 1800000
   \<and> - 60000 * sint (Bias (tzinfo (InitializeIfNeeded unknown_dst_os new_WindowsTimezoneCache))
                    + DaylightBias (tzinfo (InitializeIfNeeded unknown_dst_os new_WindowsTimezoneCache)))
       = 7200000"
proof -
  have l: "localtime_s unknown_dst_os 946684800 = localtime_isdst (- 1) 946684800"
    by (simp add: unknown_dst_os_def)
  have "fst (LocalOffset unknown_dst_os (Win32Time 946684800000) new_WindowsTimezoneCache)
        = scast (- 60 :: LONG) * (- kMsPerMinute)"
    by (simp add: LocalOffset_eq jan_2000 unknown_dst_os_init INT_MAX_def l localtime_isdst_def)
       (simp add: unknown_dst_os_def)
  then have "sint (fst (LocalOffset unknown_dst_os (Win32Time 946684800000) new_WindowsTimezoneCache))
        = 3600000"
    by (simp add: kMsPerMinute_def)
  then show ?thesis
    by (simp add: jan_2000 unknown_dst_os_init l localtime_isdst_def)
       (simp add: unknown_dst_os_def)
qed


lemma InitializeIfNeeded_fixed: "initialized c \<Longrightarrow> InitializeIfNeeded os c = c"
  by (simp add: InitializeIfNeeded_def)

lemma LocalOffset_pair:
  "LocalOffset os t cache = (fst (LocalOffset os t cache), InitializeIfNeeded os cache)"
  using LocalOffset_cache [of os t cache] by (metis prod.collapse)

lemma InDST_eq:
  "InDST os t cache =
     (let c = InitializeIfNeeded os cache in
      ((wMonth (StandardDate (tzinfo c)) \<noteq> 0 \<or> wMonth (DaylightDate (tzinfo c)) \<noteq> 0)
       \<and> fst (LocalOffset os t c)
           = scast (- (Bias (tzinfo c) + DaylightBias (tzinfo c))) * kMsPerMinute, c))"
  unfolding InDST_def Let_def
  by (subst LocalOffset_pair) (simp add: InitializeIfNeeded_idem)

lemma DaylightSavingsOffset_eq:
  "DaylightSavingsOffset os t cache =
     (if fst (InDST os t cache) then 60 * kMsPerMinute else 0, InitializeIfNeeded os cache)"
  by (simp add: DaylightSavingsOffset_def InDST_eq Let_def)

lemma LocalTimezone_eq:
  "LocalTimezone os t cache =
     (if fst (InDST os t cache) then dst_tz_name (InitializeIfNeeded os cache)
      else std_tz_name (InitializeIfNeeded os cache), InitializeIfNeeded os cache)"
  by (simp add: LocalTimezone_def InDST_eq Let_def)

lemma LocalOffset_initialized:
  assumes "initialized c" and "localtime_s os' = localtime_s os"
  shows "LocalOffset os' t c = LocalOffset os t c"
  using assms by (simp add: LocalOffset_eq InitializeIfNeeded_fixed Let_def)

lemma InDST_initialized:
  assumes "initialized c" and "localtime_s os' = localtime_s os"
  shows "InDST os' t c = InDST os t c"
  using assms LocalOffset_initialized [OF assms]
  by (simp add: InDST_eq InitializeIfNeeded_fixed Let_def)

lemma WindowsTimezoneCache_LocalTimeOffset_eq:
  "WindowsTimezoneCache_LocalTimeOffset os cache time_ms is_utc =
     (let c = InitializeIfNeeded os cache; t = Win32Time (TimeCurrentMillis os)
      in (sint (fst (LocalOffset os t c) - (if fst (InDST os t c) then 60 * kMsPerMinute else 0)), c))"
  unfolding WindowsTimezoneCache_LocalTimeOffset_def Let_def
  by (subst LocalOffset_pair)
     (simp add: DaylightSavingsOffset_eq InitializeIfNeeded_idem LocalOffset_eq [of os _ cache] 
        LocalOffset_eq [of os _ "InitializeIfNeeded os cache"] Let_def)

text \<open>
  Claim C9, as amended. \<open>WindowsTimezoneCache::LocalTimeOffset\<close> ignores its
  timestamp: its result is a function of the cached rules, of the wall clock it
  reads and of the C runtime's local-time conversion. A second call made before any
  \<open>Clear\<close>, reading the same wall clock under the same conversion, returns the
  result of the first and leaves the cache as it was, whatever timestamps are
  passed and whatever the operating system would now report as its time zone.
  \<open>Win32Time::LocalOffset\<close> itself is repeatable at the same timestamp in the
  same way.
\<close>

theorem LocalTimeOffset_repeatable:
  assumes "localtime_s os' = localtime_s os"
    and "TimeCurrentMillis os' = TimeCurrentMillis os"
  shows "WindowsTimezoneCache_LocalTimeOffset os'
           (snd (WindowsTimezoneCache_LocalTimeOffset os cache time_ms is_utc)) time_ms' is_utc'
         = WindowsTimezoneCache_LocalTimeOffset os cache time_ms is_utc
       \<and> LocalOffset os' t (snd (LocalOffset os t cache)) = LocalOffset os t cache"
proof -
  let ?c = "InitializeIfNeeded os cache"
  have i: "initialized ?c" by (rule InitializeIfNeeded_initialized)
  have a: "LocalOffset os' t ?c = LocalOffset os t cache"
    using LocalOffset_initialized [OF i assms(1), of t]
    by (simp add: LocalOffset_eq [of os t] InitializeIfNeeded_idem)
  have b: "WindowsTimezoneCache_LocalTimeOffset os' ?c time_ms' is_utc'
         = WindowsTimezoneCache_LocalTimeOffset os cache time_ms is_utc"
    using LocalOffset_initialized [OF i assms(1)] InDST_initialized [OF i assms(1)]
    by (simp add: WindowsTimezoneCache_LocalTimeOffset_eq InitializeIfNeeded_idem assms(2) Let_def)
  have c: "snd (WindowsTimezoneCache_LocalTimeOffset os cache time_ms is_utc) = ?c"
    by (simp add: WindowsTimezoneCache_LocalTimeOffset_eq Let_def)
  show ?thesis
    by (simp only: c LocalOffset_cache a b)
qed

lemma half_hour_dst_os_init:
  "InitializeIfNeeded (half_hour_dst_os now) new_WindowsTimezoneCache
   = \<lparr>initialized = True, std_tz_name = ''Local Standard Time'',
      dst_tz_name = ''Local Daylight Time'',
      tzinfo = snd (GetTimeZoneInformation (half_hour_dst_os now))\<rparr>"
  by (simp add: InitializeIfNeeded_def half_hour_dst_os_def new_WindowsTimezoneCache_def
      TIME_ZONE_ID_INVALID_def kTzNameSize_def SNPrintF_def GuessTimezoneNameFromBias_def)

lemma jun_2002: "spec_posix_seconds (Win32Time 1025000000000) = 1025000000"
  by (simp add: spec_posix_seconds_def Win32Time_def kTimeScaler_def kTimeEpoc_def)

lemma half_hour_dst_os_summer:
  "WindowsTimezoneCache_LocalTimeOffset (half_hour_dst_os 946684800000) new_WindowsTimezoneCache 0 False
   = (36000000, InitializeIfNeeded (half_hour_dst_os 946684800000) new_WindowsTimezoneCache)"
proof -
  let ?os = "half_hour_dst_os 946684800000"
  let ?c = "InitializeIfNeeded ?os new_WindowsTimezoneCache"
  have now: "TimeCurrentMillis ?os = 946684800000" by (simp add: half_hour_dst_os_def)
  have l: "localtime_s ?os 946684800 = localtime_isdst 1 946684800"
    by (simp add: half_hour_dst_os_def seasonal_localtime_def)
  have tz: "Bias (tzinfo ?c) = - 630" "DaylightBias (tzinfo ?c) = - 30" "StandardBias (tzinfo ?c) = 0"
    "wMonth (StandardDate (tzinfo ?c)) = 4"
    by (simp_all add: half_hour_dst_os_init) (simp_all add: half_hour_dst_os_def zero_TIME_ZONE_INFORMATION_def)
  have lo: "LocalOffset ?os (Win32Time 946684800000) ?c = (39600000, ?c)"
    by (simp add: LocalOffset_eq InitializeIfNeeded_idem jan_2000 INT_MAX_def l localtime_isdst_def tz
        kMsPerMinute_def)
  have ds: "fst (InDST ?os (Win32Time 946684800000) ?c)"
    by (simp add: InDST_eq InitializeIfNeeded_idem lo tz kMsPerMinute_def)
  show ?thesis
    by (simp add: WindowsTimezoneCache_LocalTimeOffset_eq InitializeIfNeeded_idem now lo ds kMsPerMinute_def)
qed

lemma half_hour_dst_os_winter:
  "WindowsTimezoneCache_LocalTimeOffset (half_hour_dst_os 1025000000000)
     (InitializeIfNeeded (half_hour_dst_os 946684800000) new_WindowsTimezoneCache) 0 False
   = (37800000, InitializeIfNeeded (half_hour_dst_os 946684800000) new_WindowsTimezoneCache)"
proof -
  let ?os = "half_hour_dst_os 1025000000000"
  let ?c = "InitializeIfNeeded (half_hour_dst_os 946684800000) new_WindowsTimezoneCache"
  have i: "InitializeIfNeeded ?os ?c = ?c" by (rule InitializeIfNeeded_idem)
  have now: "TimeCurrentMillis ?os = 1025000000000" by (simp add: half_hour_dst_os_def)
  have l: "localtime_s ?os 1025000000 = localtime_isdst 0 1025000000"
    by (simp add: half_hour_dst_os_def seasonal_localtime_def)
  have tz: "Bias (tzinfo ?c) = - 630" "DaylightBias (tzinfo ?c) = - 30" "StandardBias (tzinfo ?c) = 0"
    "wMonth (StandardDate (tzinfo ?c)) = 4"
    by (simp_all add: half_hour_dst_os_init) (simp_all add: half_hour_dst_os_def zero_TIME_ZONE_INFORMATION_def)
  have lo: "LocalOffset ?os (Win32Time 1025000000000) ?c = (37800000, ?c)"
    by (simp add: LocalOffset_eq i jun_2002 INT_MAX_def l localtime_isdst_def tz kMsPerMinute_def)
  have ds: "\<not> fst (InDST ?os (Win32Time 1025000000000) ?c)"
    by (simp add: InDST_eq i lo tz kMsPerMinute_def)
  show ?thesis
    by (simp add: WindowsTimezoneCache_LocalTimeOffset_eq i now lo ds)
qed

text \<open>
  Claim C9 as stated fails: two calls of \<open>LocalTimeOffset\<close> with the same
  timestamp 0, the second on the cache the first left and with no \<open>Clear\<close> in
  between, return 36000000 and 37800000 when the wall clock has moved from
  daylight saving time to standard time in a zone whose daylight bias is not one hour.
\<close>

theorem LocalTimeOffset_same_t_counterexample:
  "fst (WindowsTimezoneCache_LocalTimeOffset (half_hour_dst_os 946684800000)
          new_WindowsTimezoneCache 0 False) = 36000000
   \<and> fst (WindowsTimezoneCache_LocalTimeOffset (half_hour_dst_os 1025000000000)
          (snd (WindowsTimezoneCache_LocalTimeOffset (half_hour_dst_os 946684800000)
                  new_WindowsTimezoneCache 0 False)) 0 False) = 37800000"
  by (simp add: half_hour_dst_os_summer half_hour_dst_os_winter)

theorem LocalTimeOffset_repeatable_witness:
  "localtime_s (half_hour_dst_os 946684800000) = localtime_s (half_hour_dst_os 946684800000)
   \<and> TimeCurrentMillis (half_hour_dst_os 946684800000) = TimeCurrentMillis (half_hour_dst_os 946684800000)
   \<and> WindowsTimezoneCache_LocalTimeOffset (half_hour_dst_os 946684800000)
        (snd (WindowsTimezoneCache_LocalTimeOffset (half_hour_dst_os 946684800000)
                new_WindowsTimezoneCache 0 False)) 86400000 True
      = (36000000, InitializeIfNeeded (half_hour_dst_os 946684800000) new_WindowsTimezoneCache)"
  using LocalTimeOffset_repeatable [OF refl refl, of "half_hour_dst_os 946684800000"
      new_WindowsTimezoneCache 0 False 86400000 True]
  by (simp add: half_hour_dst_os_summer)

section \<open>Properties of the virtual memory functions\<close>

lemma GetProtection_READWRITE_iff:
  "GetProtectionFromMemoryPermission os access = PAGE_READWRITE \<longleftrightarrow> access = kReadWrite"
  by (cases access)
     (simp_all add: GetProtectionFromMemoryPermission_def PAGE_NOACCESS_def PAGE_READONLY_def
        PAGE_READWRITE_def PAGE_EXECUTE_READ_def PAGE_EXECUTE_READWRITE_def PAGE_TARGETS_INVALID_def)

lemma VirtualAlloc_eq:
  "VirtualAlloc os a sz fl pr s =
     (os_VirtualAlloc os (vm_events s) a sz fl pr,
      s\<lparr>vm_events := vm_events s @ [EvVirtualAlloc a sz fl pr (os_VirtualAlloc os (vm_events s) a sz fl pr)]\<rparr>)"
  by (simp add: VirtualAlloc_def Let_def)

lemma RandomizedVirtualAlloc_events:
  fixes os :: "'a::len word vm_os"
  shows "\<exists>new. vm_events (snd (RandomizedVirtualAlloc os sz fl pr hint s)) = vm_events s @ new
     \<and> (new = [EvVirtualAlloc 0 sz fl pr (fst (RandomizedVirtualAlloc os sz fl pr hint s))]
        \<or> new = [EvVirtualAlloc hint sz fl pr (fst (RandomizedVirtualAlloc os sz fl pr hint s))]
          \<and> fst (RandomizedVirtualAlloc os sz fl pr hint s) \<noteq> 0
        \<or> new = [EvVirtualAlloc hint sz fl pr 0,
                  EvVirtualAlloc 0 sz fl pr (fst (RandomizedVirtualAlloc os sz fl pr hint s))])"
  by (simp add: RandomizedVirtualAlloc_def VirtualAlloc_eq Let_def split: prod.split)


lemma Free_Return:
  assumes "Free os b sz s = (Return ok, s2)"
  shows "vm_events s2 = vm_events s @ [EvVirtualFree b 0 MEM_RELEASE ok]"
    and "ok = os_VirtualFree os (vm_events s) b 0 MEM_RELEASE"
  using assms by (auto simp: Free_def VirtualFree_def Let_def split: if_splits)

lemma Free_Abort:
  assumes "Free os b sz s = (Abort, s2)"
  shows "DEBUG os" and "s2 = s"
  using assms by (auto simp: Free_def VirtualFree_def Let_def split: if_splits)

lemma Allocate_loop_cases [consumes 1, case_names oom free_abort free_failed got retry]:
  assumes "i < kMaxAttempts"
  obtains
    (oom) s1 where "RandomizedVirtualAlloc os ps fl pr hint s = (0, s1)"
      and "Allocate_loop os sz al fl pr hint ps i base ab s = (Return 0, s1)"
  | (free_abort) b s1 s2 where "RandomizedVirtualAlloc os ps fl pr hint s = (b, s1)" and "b \<noteq> 0"
      and "Free os b ps s1 = (Abort, s2)"
      and "Allocate_loop os sz al fl pr hint ps i base ab s = (Abort, s2)"
  | (free_failed) b s1 s2 where "RandomizedVirtualAlloc os ps fl pr hint s = (b, s1)" and "b \<noteq> 0"
      and "Free os b ps s1 = (Return False, s2)"
      and "Allocate_loop os sz al fl pr hint ps i base ab s = (Abort, s2)"
  | (got) b s1 s2 b' s3 where "RandomizedVirtualAlloc os ps fl pr hint s = (b, s1)" and "b \<noteq> 0"
      and "Free os b ps s1 = (Return True, s2)"
      and "VirtualAlloc os (RoundUp os b al) sz fl pr s2 = (b', s3)" and "b' \<noteq> 0"
      and "Allocate_loop os sz al fl pr hint ps i base ab s = Allocate_finish os b' (RoundUp os b al) s3"
  | (retry) b s1 s2 s3 where "RandomizedVirtualAlloc os ps fl pr hint s = (b, s1)" and "b \<noteq> 0"
      and "Free os b ps s1 = (Return True, s2)"
      and "VirtualAlloc os (RoundUp os b al) sz fl pr s2 = (0, s3)"
      and "Allocate_loop os sz al fl pr hint ps i base ab s
           = Allocate_loop os sz al fl pr hint ps (i + 1) 0 (RoundUp os b al) s3"
proof -
  obtain b s1 where R: "RandomizedVirtualAlloc os ps fl pr hint s = (b, s1)" by fastforce
  obtain o2 s2 where F: "Free os b ps s1 = (o2, s2)" by fastforce
  obtain b' s3 where V: "VirtualAlloc os (RoundUp os b al) sz fl pr s2 = (b', s3)" by fastforce
  have step: "Allocate_loop os sz al fl pr hint ps i base ab s =
      (if b = 0 then (Return 0, s1)
       else case o2 of Abort \<Rightarrow> (Abort, s2)
            | Return ok \<Rightarrow>
                if \<not> ok then (Abort, s2)
                else if b' \<noteq> 0 then Allocate_finish os b' (RoundUp os b al) s3
                else Allocate_loop os sz al fl pr hint ps (i + 1) b' (RoundUp os b al) s3)"
    using assms by (subst Allocate_loop.simps) (simp add: R F V split: outcome.split)
  show thesis
  proof (cases "b = 0")
    case True
    then show thesis using R step oom by simp
  next
    case nz: False
    show thesis
    proof (cases o2)
      case Abort
      then show thesis using R nz F step free_abort [of b s1 s2] by simp
    next
      case (Return ok)
      show thesis
      proof (cases ok)
        case False
        then show thesis using R nz F Return step free_failed [of b s1 s2] by simp
      next
        case True
        show thesis
        proof (cases "b' = 0")
          case False
          then show thesis using R nz F Return True V step got [of b s1 s2 b' s3] by simp
        next
          case z: True
          then show thesis using R nz F Return True V step retry [of b s1 s2 s3] by simp
        qed
      qed
    qed
  qed
qed


lemma Allocate_loop_done:
  "\<not> i < kMaxAttempts \<Longrightarrow>
   Allocate_loop os sz al fl pr hint ps i base ab s = Allocate_finish os base ab s"
  by (subst Allocate_loop.simps) simp

lemma Allocate_finish_Return:
  "fst (Allocate_finish os b ab s) = Return A \<Longrightarrow> A = b \<and> snd (Allocate_finish os b ab s) = s"
  by (simp add: Allocate_finish_def split: if_splits)






lemma macros_RoundUp_pow2:
  fixes x :: "'a::len word"
  shows "macros_RoundUp x (2 ^ k) mod 2 ^ k = 0"
proof -
  have "take_bit k ((x + (2 ^ k - 1)) AND NOT (mask k)) = 0"
    by (simp add: take_bit_eq_mask and.assoc)
  then show ?thesis
    by (simp add: macros_RoundUp_def macros_RoundDown_def minus_exp_eq_not_mask take_bit_eq_mod)
qed

lemma word_mod_trans:
  fixes x al g :: "'a::len word"
  assumes "x mod al = 0" and "al mod g = 0"
  shows "x mod g = 0"
proof -
  have 1: "unat x mod unat al = 0" using assms(1) by (metis unat_mod_distrib unat_0)
  have 2: "unat al mod unat g = 0" using assms(2) by (metis unat_mod_distrib unat_0)
  have "unat x mod unat g = 0" using 1 2 by (metis mod_0_imp_dvd dvd_trans dvd_imp_mod_0)
  then show ?thesis by (metis unat_mod_distrib unat_eq_0)
qed

lemma padded_request_unpinned:
  fixes os :: "'a::len word vm_os"
  assumes "RandomizedVirtualAlloc os ps fl pr 0 s = (b, s1)"
  shows "\<exists>h. b = os_VirtualAlloc os h 0 ps fl pr"
  using assms
  by (auto simp: RandomizedVirtualAlloc_def VirtualAlloc_eq Let_def split: prod.splits if_splits)

lemma Allocate_loop_aligned:
  fixes os :: "'a::len word vm_os"
  assumes up: "\<forall>x. RoundUp os x al mod al = 0"
    and g: "al mod g = 0"
    and pinned: "\<forall>h a sz fl pr. a \<noteq> 0 \<and> a mod g = 0 \<longrightarrow>
                   os_VirtualAlloc os h a sz fl pr = 0 \<or> os_VirtualAlloc os h a sz fl pr = a"
    and nowrap: "\<forall>h sz fl pr. os_VirtualAlloc os h 0 sz fl pr \<noteq> 0 \<longrightarrow>
                   RoundUp os (os_VirtualAlloc os h 0 sz fl pr) al \<noteq> 0"
    and n: "nat (kMaxAttempts - i) = n"
    and ret: "fst (Allocate_loop os sz al fl pr 0 ps i base ab s) = Return A"
  shows "A = 0 \<or> A mod al = 0 \<or> (\<not> i < kMaxAttempts \<and> A = base)"
  using n ret
proof (induction n arbitrary: i base ab s)
  case 0
  then have d: "\<not> i < kMaxAttempts" by simp
  show ?case
    using 0(2) d Allocate_finish_Return [of os base ab s A]
    by (simp add: Allocate_loop_done [OF d])
next
  case (Suc n)
  then have lt: "i < kMaxAttempts" by simp
  from lt show ?case
  proof (cases rule: Allocate_loop_cases [where os = os and ps = ps and fl = fl and pr = pr
        and hint = 0 and s = s and sz = sz and al = al and base = base and ab = ab])
    case (oom s1)
    then show ?thesis using Suc.prems(2) by simp
  next
    case (free_abort b s1 s2)
    then show ?thesis using Suc.prems(2) by simp
  next
    case (free_failed b s1 s2)
    then show ?thesis using Suc.prems(2) by simp
  next
    case (got b s1 s2 b' s3)
    have fin: "A = b'"
      using Suc.prems(2) Allocate_finish_Return [of os b' "RoundUp os b al" s3 A] got(6) by simp
    obtain h where h: "b = os_VirtualAlloc os h 0 ps fl pr"
      using padded_request_unpinned [OF got(1)] by blast
    have nz: "RoundUp os b al \<noteq> 0"
      using nowrap [rule_format, of h ps fl pr] got(2) h by simp
    have gm: "RoundUp os b al mod g = 0"
      by (rule word_mod_trans [OF _ g]) (simp add: up)
    have "b' = os_VirtualAlloc os (vm_events s2) (RoundUp os b al) sz fl pr"
      using got(4) by (simp add: VirtualAlloc_eq)
    then have "b' = RoundUp os b al"
      using pinned [rule_format, of "RoundUp os b al" "vm_events s2" sz fl pr] nz gm got(5) by auto
    then show ?thesis using fin up by simp
  next
    case (retry b s1 s2 s3)
    have i1: "nat (kMaxAttempts - (i + 1)) = n" using Suc.prems(1) by simp
    have r1: "fst (Allocate_loop os sz al fl pr 0 ps (i + 1) 0 (RoundUp os b al) s3) = Return A"
      using Suc.prems(2) retry(5) by simp
    show ?thesis using Suc.IH [OF i1 r1] by auto
  qed
qed

lemma Allocate_loop_no_abort:
  fixes os :: "'a::len word vm_os"
  assumes rel: "\<not> DEBUG os"
    and free: "\<forall>h a. os_VirtualFree os h a 0 MEM_RELEASE"
    and n: "nat (kMaxAttempts - i) = n"
  shows "fst (Allocate_loop os sz al fl pr hint ps i base ab s) \<noteq> Abort"
  using n
proof (induction n arbitrary: i base ab s)
  case 0
  then have d: "\<not> i < kMaxAttempts" by simp
  show ?case using rel by (simp add: Allocate_loop_done [OF d] Allocate_finish_def)
next
  case (Suc n)
  then have lt: "i < kMaxAttempts" by simp
  from lt show ?case
  proof (cases rule: Allocate_loop_cases [where os = os and ps = ps and fl = fl and pr = pr
        and hint = hint and s = s and sz = sz and al = al and base = base and ab = ab])
    case (oom s1)
    then show ?thesis by simp
  next
    case (free_abort b s1 s2)
    then show ?thesis using rel Free_Abort(1) by blast
  next
    case (free_failed b s1 s2)
    then show ?thesis using free Free_Return(2) by blast
  next
    case (got b s1 s2 b' s3)
    then show ?thesis using rel by (simp add: Allocate_finish_def)
  next
    case (retry b s1 s2 s3)
    have i1: "nat (kMaxAttempts - (i + 1)) = n" using Suc.prems(1) by simp
    show ?thesis using Suc.IH [OF i1] retry(5) by simp
  qed
qed

lemma RandomizedVirtualAlloc_allocates_with:
  fixes os :: "'a::len word vm_os"
  shows "\<exists>new. vm_events (snd (RandomizedVirtualAlloc os sz fl pr hint s)) = vm_events s @ new
           \<and> list_all (allocates_with fl pr) new"
  using RandomizedVirtualAlloc_events [of os sz fl pr hint s] by auto

lemma Allocate_loop_allocates_with:
  fixes os :: "'a::len word vm_os"
  assumes n: "nat (kMaxAttempts - i) = n"
  shows "\<exists>new. vm_events (snd (Allocate_loop os sz al fl pr hint ps i base ab s)) = vm_events s @ new
           \<and> list_all (allocates_with fl pr) new"
  using n
proof (induction n arbitrary: i base ab s)
  case 0
  then have d: "\<not> i < kMaxAttempts" by simp
  show ?case by (simp add: Allocate_loop_done [OF d] Allocate_finish_def)
next
  case (Suc n)
  then have lt: "i < kMaxAttempts" by simp
  from lt show ?case
  proof (cases rule: Allocate_loop_cases [where os = os and ps = ps and fl = fl and pr = pr
        and hint = hint and s = s and sz = sz and al = al and base = base and ab = ab])
    case (oom s1)
    then show ?thesis using RandomizedVirtualAlloc_allocates_with [of os ps fl pr hint s] by simp
  next
    case (free_abort b s1 s2)
    then show ?thesis
      using RandomizedVirtualAlloc_allocates_with [of os ps fl pr hint s] Free_Abort(2) [OF free_abort(3)]
      by simp
  next
    case (free_failed b s1 s2)
    obtain new where "vm_events s1 = vm_events s @ new" "list_all (allocates_with fl pr) new"
      using RandomizedVirtualAlloc_allocates_with [of os ps fl pr hint s] free_failed(1) by auto
    then show ?thesis
      using Free_Return(1) [OF free_failed(3)] free_failed(4)
      by (intro exI [of _ "new @ [EvVirtualFree b 0 MEM_RELEASE False]"]) simp
  next
    case (got b s1 s2 b' s3)
    obtain new where "vm_events s1 = vm_events s @ new" "list_all (allocates_with fl pr) new"
      using RandomizedVirtualAlloc_allocates_with [of os ps fl pr hint s] got(1) by auto
    moreover have "vm_events s3 = vm_events s2 @ [EvVirtualAlloc (RoundUp os b al) sz fl pr b']"
      using got(4) by (auto simp: VirtualAlloc_eq)
    ultimately show ?thesis
      using Free_Return(1) [OF got(3)] got(6)
      by (intro exI [of _ "new @ [EvVirtualFree b 0 MEM_RELEASE True,
            EvVirtualAlloc (RoundUp os b al) sz fl pr b']"]) (simp add: Allocate_finish_def)
  next
    case (retry b s1 s2 s3)
    obtain new where "vm_events s1 = vm_events s @ new" "list_all (allocates_with fl pr) new"
      using RandomizedVirtualAlloc_allocates_with [of os ps fl pr hint s] retry(1) by auto
    moreover have "vm_events s3 = vm_events s2 @ [EvVirtualAlloc (RoundUp os b al) sz fl pr 0]"
      using retry(4) by (auto simp: VirtualAlloc_eq)
    moreover have i1: "nat (kMaxAttempts - (i + 1)) = n" using Suc.prems(1) by simp
    from Suc.IH [OF i1, of 0 "RoundUp os b al" s3] obtain new' where
      "vm_events (snd (Allocate_loop os sz al fl pr hint ps (i + 1) 0 (RoundUp os b al) s3))
        = vm_events s3 @ new'" "list_all (allocates_with fl pr) new'"
      by blast
    ultimately show ?thesis
      using Free_Return(1) [OF retry(3)] retry(5)
      by (intro exI [of _ "new @ [EvVirtualFree b 0 MEM_RELEASE True,
            EvVirtualAlloc (RoundUp os b al) sz fl pr 0] @ new'"]) simp
  qed
qed

lemma Allocate_cases [case_names precondition oom aligned free_abort free_failed retry]:
  fixes os :: "'a::len word vm_os"
  obtains
    (precondition) "DEBUG os"
      and "size' mod AllocatePageSize os \<noteq> 0 \<or> alignment mod AllocatePageSize os \<noteq> 0
           \<or> \<not> AllocatePageSize os \<le> alignment"
      and "Allocate os hint size' alignment access s = (Abort, s)"
  | (oom) s1 where "RandomizedVirtualAlloc os size' (Allocate_flags access)
          (GetProtectionFromMemoryPermission os access) (AlignedAddress os hint alignment) s = (0, s1)"
      and "Allocate os hint size' alignment access s = (Return 0, s1)"
  | (aligned) b0 s1 where "RandomizedVirtualAlloc os size' (Allocate_flags access)
          (GetProtectionFromMemoryPermission os access) (AlignedAddress os hint alignment) s = (b0, s1)"
      and "b0 \<noteq> 0" and "b0 = RoundUp os b0 alignment"
      and "Allocate os hint size' alignment access s = (Return b0, s1)"
  | (free_abort) b0 s1 s2 where "RandomizedVirtualAlloc os size' (Allocate_flags access)
          (GetProtectionFromMemoryPermission os access) (AlignedAddress os hint alignment) s = (b0, s1)"
      and "b0 \<noteq> 0" and "b0 \<noteq> RoundUp os b0 alignment"
      and "Free os b0 size' s1 = (Abort, s2)"
      and "Allocate os hint size' alignment access s = (Abort, s2)"
  | (free_failed) b0 s1 s2 where "RandomizedVirtualAlloc os size' (Allocate_flags access)
          (GetProtectionFromMemoryPermission os access) (AlignedAddress os hint alignment) s = (b0, s1)"
      and "b0 \<noteq> 0" and "b0 \<noteq> RoundUp os b0 alignment"
      and "Free os b0 size' s1 = (Return False, s2)"
      and "Allocate os hint size' alignment access s = (Abort, s2)"
  | (retry) b0 s1 s2 where "RandomizedVirtualAlloc os size' (Allocate_flags access)
          (GetProtectionFromMemoryPermission os access) (AlignedAddress os hint alignment) s = (b0, s1)"
      and "b0 \<noteq> 0" and "b0 \<noteq> RoundUp os b0 alignment"
      and "Free os b0 size' s1 = (Return True, s2)"
      and "Allocate os hint size' alignment access s
           = Allocate_loop os size' alignment (Allocate_flags access)
               (GetProtectionFromMemoryPermission os access) 0
               (size' + (alignment - AllocatePageSize os)) 0 b0 0 s2"
proof -
  let ?fl = "Allocate_flags access"
  let ?pr = "GetProtectionFromMemoryPermission os access"
  obtain b0 s1 where R: "RandomizedVirtualAlloc os size' ?fl ?pr (AlignedAddress os hint alignment) s
                  = (b0, s1)" by fastforce
  obtain o2 s2 where F: "Free os b0 size' s1 = (o2, s2)" by fastforce
  show thesis
  proof (cases "DEBUG os \<and> (size' mod AllocatePageSize os \<noteq> 0 \<or> alignment mod AllocatePageSize os \<noteq> 0
           \<or> \<not> AllocatePageSize os \<le> alignment)")
    case True
    then show thesis using precondition by (auto simp: Allocate_def Let_def)
  next
    case False
    then have pre: "\<not> (DEBUG os \<and> size' mod AllocatePageSize os \<noteq> 0)"
      "\<not> (DEBUG os \<and> alignment mod AllocatePageSize os \<noteq> 0)"
      "\<not> (DEBUG os \<and> \<not> AllocatePageSize os \<le> alignment)"
      by blast+
    have A: "Allocate os hint size' alignment access s =
        (if b0 = 0 then (Return 0, s1)
         else if b0 = RoundUp os b0 alignment then (Return b0, s1)
         else case o2 of Abort \<Rightarrow> (Abort, s2)
              | Return ok \<Rightarrow>
                  if \<not> ok then (Abort, s2)
                  else Allocate_loop os size' alignment ?fl ?pr 0
                         (size' + (alignment - AllocatePageSize os)) 0 b0 0 s2)"
      by (simp only: Allocate_def Let_def pre if_False R F prod.case)
    show thesis
    proof (cases "b0 = 0")
      case True
      then show thesis using A R oom by simp
    next
      case nz: False
      show thesis
      proof (cases "b0 = RoundUp os b0 alignment")
        case True
        then show thesis using A R nz aligned [of b0 s1] by simp
      next
        case mis: False
        show thesis
        proof (cases o2)
          case Abort
          then show thesis using A R F nz mis free_abort [of b0 s1 s2] by simp
        next
          case (Return ok)
          then show thesis
            using A R F nz mis free_failed [of b0 s1 s2] retry [of b0 s1 s2] by (cases ok) simp_all
        qed
      qed
    qed
  qed
qed


text \<open>
  Claim C1, as amended. Let \<open>RoundUp\<close> be the helper of macros.h, let the
  alignment be a power of two and a multiple of the allocation granularity, and let
  the operating system keep the contract of \<open>VirtualAlloc\<close> (a request pinned at
  a multiple of the granularity is refused or granted at that address, and a region
  is never placed so high that rounding its base up wraps to null). Then whatever
  \<open>Allocate\<close> returns is null or a multiple of the alignment; and in a release
  build, when \<open>VirtualFree\<close> succeeds, \<open>Allocate\<close> does return. (The other
  preconditions of the call, on \<open>size\<close> and on \<open>alignment \<ge> granularity\<close>, are
  not needed for this.)
\<close>

theorem Allocate_aligned:
  fixes os :: "'a::len word vm_os"
  assumes helper: "RoundUp os = macros_RoundUp"
    and pow: "alignment = 2 ^ k"
    and g: "alignment mod AllocatePageSize os = 0"
    and pinned: "\<forall>h a sz fl pr. a \<noteq> 0 \<and> a mod AllocatePageSize os = 0 \<longrightarrow>
                   os_VirtualAlloc os h a sz fl pr = 0 \<or> os_VirtualAlloc os h a sz fl pr = a"
    and nowrap: "\<forall>h sz fl pr. os_VirtualAlloc os h 0 sz fl pr \<noteq> 0 \<longrightarrow>
                   RoundUp os (os_VirtualAlloc os h 0 sz fl pr) alignment \<noteq> 0"
  shows "(\<forall>A. fst (Allocate os hint size' alignment access s) = Return A \<longrightarrow> A = 0 \<or> A mod alignment = 0)
       \<and> (\<not> DEBUG os \<and> (\<forall>h a. os_VirtualFree os h a 0 MEM_RELEASE) \<longrightarrow>
            fst (Allocate os hint size' alignment access s) \<noteq> Abort)"
proof -
  have up: "\<forall>x. RoundUp os x alignment mod alignment = 0"
    by (simp only: helper pow macros_RoundUp_pow2 simp_thms)
  let ?fl = "Allocate_flags access"
  let ?pr = "GetProtectionFromMemoryPermission os access"
  let ?ps = "size' + (alignment - AllocatePageSize os)"
  have n3: "nat (kMaxAttempts - 0) = 3" by (simp add: kMaxAttempts_def)
  have 1: "A = 0 \<or> A mod alignment = 0" if ret: "fst (Allocate os hint size' alignment access s) = Return A" for A
  proof (cases rule: Allocate_cases [of os size' alignment hint access s])
    case precondition
    then show ?thesis using ret by simp
  next
    case (oom s1)
    then show ?thesis using ret by simp
  next
    case (aligned b0 s1)
    then have "A = RoundUp os b0 alignment" using ret by simp
    then show ?thesis using up by simp
  next
    case (free_abort b0 s1 s2)
    then show ?thesis using ret by simp
  next
    case (free_failed b0 s1 s2)
    then show ?thesis using ret by simp
  next
    case (retry b0 s1 s2)
    then have "fst (Allocate_loop os size' alignment ?fl ?pr 0 ?ps 0 b0 0 s2) = Return A"
      using ret by simp
    then show ?thesis
      using Allocate_loop_aligned [OF up g pinned nowrap n3, of size' ?fl ?pr ?ps b0 0 s2 A]
      by (simp add: kMaxAttempts_def)
  qed
  have 2: "fst (Allocate os hint size' alignment access s) \<noteq> Abort"
    if rel: "\<not> DEBUG os" and free: "\<forall>h a. os_VirtualFree os h a 0 MEM_RELEASE"
  proof (cases rule: Allocate_cases [of os size' alignment hint access s])
    case precondition
    then show ?thesis using rel by simp
  next
    case (oom s1)
    then show ?thesis by simp
  next
    case (aligned b0 s1)
    then show ?thesis by simp
  next
    case (free_abort b0 s1 s2)
    then show ?thesis using rel Free_Abort(1) by blast
  next
    case (free_failed b0 s1 s2)
    then show ?thesis using free Free_Return(2) by blast
  next
    case (retry b0 s1 s2)
    then show ?thesis
      using Allocate_loop_no_abort [OF rel free n3, of size' alignment ?fl ?pr 0 ?ps b0 0 s2] by simp
  qed
  show ?thesis using 1 2 by blast
qed


lemmas vm_const_defs = PAGE_NOACCESS_def PAGE_READONLY_def PAGE_READWRITE_def PAGE_EXECUTE_READ_def
  PAGE_EXECUTE_READWRITE_def PAGE_TARGETS_INVALID_def MEM_COMMIT_def MEM_RESERVE_def
  MEM_DECOMMIT_def MEM_RELEASE_def MEM_RESET_def

lemma obliging_os_simps:
  "DEBUG obliging_os = False" "V8_HOST_ARCH_32_BIT obliging_os = False"
  "RoundUp obliging_os = macros_RoundUp" "AlignedAddress obliging_os = macros_AlignedAddress"
  "os_IsWindows10OrGreater obliging_os = True"
  "AllocatePageSize obliging_os = 0x10000"
  "os_VirtualAlloc obliging_os h a sz fl pr = (if a = 0 then 0x250000 else a)"
  "os_VirtualFree obliging_os h a sz t = True"
  by (simp_all add: obliging_os_def AllocatePageSize_def)


text \<open>
  Claim C2, as amended. The first, exact-size request of \<open>Allocate\<close> is
  \<open>RandomizedVirtualAlloc\<close> with the protection of the permission. It passes the
  hint to the operating system exactly when \<open>use_aslr\<close> is set (always on a 64-bit
  host, by \<open>IsWow64Process\<close> on a 32-bit host) and the permission is anything but
  \<open>kReadWrite\<close>, \<open>kRead\<close> included. For \<open>kReadWrite\<close> the only call is the one
  with no hint. When the hinted attempt returns null, exactly one more call
  follows, with no hint, and its result is what the caller gets.
\<close>

theorem RandomizedVirtualAlloc_placement:
  fixes os :: "'a::len word vm_os"
  shows "(let protect = GetProtectionFromMemoryPermission os access;
              (base, s') = RandomizedVirtualAlloc os size' flags protect hint s;
              hinted = os_VirtualAlloc os (vm_events s) hint size' flags protect
          in use_aslr s' = (if V8_HOST_ARCH_32_BIT os
                            then (if use_aslr s = - 1
                                  then (if fst (os_IsWow64Process os) then snd (os_IsWow64Process os) else 0)
                                  else use_aslr s)
                            else 1)
           \<and> vm_events s' = vm_events s @
                (if use_aslr s' \<noteq> 0 \<and> access \<noteq> kReadWrite
                 then (if hinted \<noteq> 0 then [EvVirtualAlloc hint size' flags protect base]
                       else [EvVirtualAlloc hint size' flags protect 0,
                             EvVirtualAlloc 0 size' flags protect base])
                 else [EvVirtualAlloc 0 size' flags protect base]))"
  using GetProtection_READWRITE_iff [of os access]
  by (auto simp: RandomizedVirtualAlloc_def VirtualAlloc_eq Let_def split: prod.splits)

text \<open>
  Claim C2 as stated fails: for the permission \<open>kRead\<close>, which is neither
  executable nor no-access, \<open>Allocate\<close> on a 64-bit host passes the hint
  \<open>0x50000\<close> to \<open>VirtualAlloc\<close>.
\<close>

theorem Allocate_kRead_hint_counterexample:
  "Allocate obliging_os 0x50000 0x10000 0x10000 kRead initial_vm_state
   = (Return 0x50000,
      \<lparr>vm_events = [EvVirtualAlloc 0x50000 0x10000 (MEM_RESERVE OR MEM_COMMIT) PAGE_READONLY 0x50000],
       use_aslr = 1, discard_virtual_memory = - 1\<rparr>)"
  by (simp add: Allocate_def Let_def obliging_os_simps RandomizedVirtualAlloc_def VirtualAlloc_eq
      initial_vm_state_def GetProtectionFromMemoryPermission_def Allocate_flags_def
      macros_RoundUp_def macros_RoundDown_def macros_AlignedAddress_def vm_const_defs)


lemma Allocate_allocates_with:
  fixes os :: "'a::len word vm_os"
  shows "\<exists>new. vm_events (snd (Allocate os hint size' alignment access s)) = vm_events s @ new
           \<and> list_all (allocates_with (Allocate_flags access) (GetProtectionFromMemoryPermission os access)) new"
proof (cases rule: Allocate_cases [of os size' alignment hint access s])
  case precondition
  then show ?thesis by simp
next
  case (oom s1)
  then show ?thesis
    using RandomizedVirtualAlloc_allocates_with [of os size' "Allocate_flags access"
        "GetProtectionFromMemoryPermission os access" "AlignedAddress os hint alignment" s] by simp
next
  case (aligned b0 s1)
  then show ?thesis
    using RandomizedVirtualAlloc_allocates_with [of os size' "Allocate_flags access"
        "GetProtectionFromMemoryPermission os access" "AlignedAddress os hint alignment" s] by simp
next
  case (free_abort b0 s1 s2)
  then show ?thesis
    using RandomizedVirtualAlloc_allocates_with [of os size' "Allocate_flags access"
        "GetProtectionFromMemoryPermission os access" "AlignedAddress os hint alignment" s]
      Free_Abort(2) [OF free_abort(4)] by simp
next
  case (free_failed b0 s1 s2)
  obtain new where "vm_events s1 = vm_events s @ new"
    "list_all (allocates_with (Allocate_flags access) (GetProtectionFromMemoryPermission os access)) new"
    using RandomizedVirtualAlloc_allocates_with [of os size' "Allocate_flags access"
        "GetProtectionFromMemoryPermission os access" "AlignedAddress os hint alignment" s]
      free_failed(1) by auto
  then show ?thesis
    using Free_Return(1) [OF free_failed(4)] free_failed(5)
    by (intro exI [of _ "new @ [EvVirtualFree b0 0 MEM_RELEASE False]"]) simp
next
  case (retry b0 s1 s2)
  obtain new where "vm_events s1 = vm_events s @ new"
    "list_all (allocates_with (Allocate_flags access) (GetProtectionFromMemoryPermission os access)) new"
    using RandomizedVirtualAlloc_allocates_with [of os size' "Allocate_flags access"
        "GetProtectionFromMemoryPermission os access" "AlignedAddress os hint alignment" s]
      retry(1) by auto
  moreover have n3: "nat (kMaxAttempts - 0) = 3" by (simp add: kMaxAttempts_def)
  from Allocate_loop_allocates_with [OF n3, of os size' alignment "Allocate_flags access"
      "GetProtectionFromMemoryPermission os access" 0 "size' + (alignment - AllocatePageSize os)" b0 0 s2]
  obtain new' where
    "vm_events (snd (Allocate_loop os size' alignment (Allocate_flags access)
        (GetProtectionFromMemoryPermission os access) 0 (size' + (alignment - AllocatePageSize os))
        0 b0 0 s2)) = vm_events s2 @ new'"
    "list_all (allocates_with (Allocate_flags access) (GetProtectionFromMemoryPermission os access)) new'"
    by blast
  ultimately show ?thesis
    using Free_Return(1) [OF retry(4)] retry(5)
    by (intro exI [of _ "new @ [EvVirtualFree b0 0 MEM_RELEASE True] @ new'"]) simp
qed

text \<open>
  Claim C4, as amended. \<open>kNoAccessWillJitLater\<close> and \<open>kNoAccess\<close> map to the same
  protection, \<open>PAGE_NOACCESS\<close>, but to different allocation types: every
  \<open>VirtualAlloc\<close> call of \<open>Allocate\<close> with \<open>kNoAccess\<close> only reserves
  (\<open>MEM_RESERVE\<close>), and every one with \<open>kNoAccessWillJitLater\<close> reserves and
  commits (\<open>MEM_RESERVE | MEM_COMMIT\<close>).
\<close>

theorem NoAccessWillJitLater_mapping:
  fixes os :: "'a::len word vm_os"
  shows "GetProtectionFromMemoryPermission os kNoAccess = PAGE_NOACCESS
       \<and> GetProtectionFromMemoryPermission os kNoAccessWillJitLater = PAGE_NOACCESS
       \<and> Allocate_flags kNoAccess = MEM_RESERVE
       \<and> Allocate_flags kNoAccessWillJitLater = MEM_RESERVE OR MEM_COMMIT
       \<and> MEM_RESERVE \<noteq> MEM_RESERVE OR MEM_COMMIT
       \<and> list_all (allocates_with MEM_RESERVE PAGE_NOACCESS)
            (drop (length (vm_events s)) (vm_events (snd (Allocate os hint size' alignment kNoAccess s))))
       \<and> list_all (allocates_with (MEM_RESERVE OR MEM_COMMIT) PAGE_NOACCESS)
            (drop (length (vm_events s))
               (vm_events (snd (Allocate os hint size' alignment kNoAccessWillJitLater s))))"
proof -
  have p: "GetProtectionFromMemoryPermission os kNoAccess = PAGE_NOACCESS"
    "GetProtectionFromMemoryPermission os kNoAccessWillJitLater = PAGE_NOACCESS"
    by (simp_all add: GetProtectionFromMemoryPermission_def)
  have f: "Allocate_flags kNoAccess = MEM_RESERVE"
    "Allocate_flags kNoAccessWillJitLater = MEM_RESERVE OR MEM_COMMIT"
    by (simp_all add: Allocate_flags_def)
  have d: "MEM_RESERVE \<noteq> MEM_RESERVE OR MEM_COMMIT" by (simp add: vm_const_defs)
  have 1: "list_all (allocates_with MEM_RESERVE PAGE_NOACCESS)
            (drop (length (vm_events s)) (vm_events (snd (Allocate os hint size' alignment kNoAccess s))))"
    using Allocate_allocates_with [of os hint size' alignment kNoAccess s] by (auto simp: p f)
  have 2: "list_all (allocates_with (MEM_RESERVE OR MEM_COMMIT) PAGE_NOACCESS)
            (drop (length (vm_events s))
               (vm_events (snd (Allocate os hint size' alignment kNoAccessWillJitLater s))))"
    using Allocate_allocates_with [of os hint size' alignment kNoAccessWillJitLater s]
    by (auto simp: p f)
  show ?thesis using p f d 1 2 by blast
qed

text \<open>
  Claim C4 as stated fails: the same request is made with allocation type
  \<open>0x2000\<close> (reserve) for \<open>kNoAccess\<close> and with \<open>0x3000\<close> (reserve and commit)
  for \<open>kNoAccessWillJitLater\<close>.
\<close>

theorem NoAccessWillJitLater_commits_counterexample:
  "vm_events (snd (Allocate obliging_os 0 0x10000 0x10000 kNoAccess initial_vm_state))
     = [EvVirtualAlloc 0 0x10000 0x2000 PAGE_NOACCESS 0x250000]
   \<and> vm_events (snd (Allocate obliging_os 0 0x10000 0x10000 kNoAccessWillJitLater initial_vm_state))
     = [EvVirtualAlloc 0 0x10000 0x3000 PAGE_NOACCESS 0x250000]
   \<and> MEM_RESERVE = 0x2000 \<and> MEM_RESERVE OR MEM_COMMIT = 0x3000"
  by (simp add: Allocate_def Let_def obliging_os_simps RandomizedVirtualAlloc_def VirtualAlloc_eq
      initial_vm_state_def GetProtectionFromMemoryPermission_def Allocate_flags_def
      macros_RoundUp_def macros_RoundDown_def macros_AlignedAddress_def vm_const_defs)


lemma obliging_os_Allocate:
  "Allocate obliging_os 0 0x10000 0x100000 kReadWrite initial_vm_state
   = (Return 0x300000,
      \<lparr>vm_events = [EvVirtualAlloc 0 0x10000 0x3000 PAGE_READWRITE 0x250000,
                    EvVirtualFree 0x250000 0 MEM_RELEASE True,
                    EvVirtualAlloc 0 0x100000 0x3000 PAGE_READWRITE 0x250000,
                    EvVirtualFree 0x250000 0 MEM_RELEASE True,
                    EvVirtualAlloc 0x300000 0x10000 0x3000 PAGE_READWRITE 0x300000],
       use_aslr = 1, discard_virtual_memory = - 1\<rparr>)"
  by (simp add: Allocate_def Let_def obliging_os_simps RandomizedVirtualAlloc_def VirtualAlloc_eq
      initial_vm_state_def GetProtectionFromMemoryPermission_def Allocate_flags_def
      macros_RoundUp_def macros_RoundDown_def macros_AlignedAddress_def vm_const_defs Free_def VirtualFree_def
      Allocate_loop.simps [of _ _ _ _ _ _ _ 0] kMaxAttempts_def Allocate_finish_def)



text \<open>
  Claim C1 as stated fails: in a release build, with a granularity of 64 KiB, a
  size of 64 KiB and an alignment of 192 KiB (a multiple of the granularity that is
  not a power of two), \<open>RoundUp(0x250000, 0x30000)\<close> is \<open>0x250000\<close>, so the
  first region is taken for aligned and returned, although \<open>0x250000\<close> is not
  a multiple of \<open>0x30000\<close>.
\<close>

theorem Allocate_alignment_counterexample:
  "(0x10000 :: 64 word) mod AllocatePageSize obliging_os = 0
   \<and> (0x30000 :: 64 word) mod AllocatePageSize obliging_os = 0
   \<and> AllocatePageSize obliging_os \<le> (0x30000 :: 64 word)
   \<and> RoundUp obliging_os 0x250000 0x30000 = 0x250000
   \<and> Allocate obliging_os 0 0x10000 0x30000 kReadWrite initial_vm_state
       = (Return 0x250000,
          \<lparr>vm_events = [EvVirtualAlloc 0 0x10000 0x3000 PAGE_READWRITE 0x250000],
           use_aslr = 1, discard_virtual_memory = - 1\<rparr>)
   \<and> (0x250000 :: 64 word) \<noteq> 0
   \<and> (0x250000 :: 64 word) mod 0x30000 = 0x10000"
  by (simp add: Allocate_def Let_def obliging_os_simps RandomizedVirtualAlloc_def VirtualAlloc_eq
      initial_vm_state_def GetProtectionFromMemoryPermission_def Allocate_flags_def
      macros_RoundUp_def macros_RoundDown_def macros_AlignedAddress_def vm_const_defs)

theorem Allocate_aligned_witness:
  "RoundUp obliging_os = macros_RoundUp
   \<and> (0x100000 :: 64 word) = 2 ^ 20
   \<and> 0x100000 mod AllocatePageSize obliging_os = 0
   \<and> fst (Allocate obliging_os 0 0x10000 0x100000 kReadWrite initial_vm_state) = Return 0x300000
   \<and> (0x300000 :: 64 word) mod 0x100000 = 0
   \<and> fst (Allocate obliging_os 0 0x10000 0x100000 kReadWrite initial_vm_state) \<noteq> Abort"
proof -
  have helper: "RoundUp obliging_os = macros_RoundUp" by (simp add: obliging_os_simps)
  have pow: "(0x100000 :: 64 word) = 2 ^ 20" by simp
  have g: "0x100000 mod AllocatePageSize obliging_os = 0" by (simp add: obliging_os_simps)
  have pinned: "\<forall>h a sz fl pr. a \<noteq> 0 \<and> a mod AllocatePageSize obliging_os = 0 \<longrightarrow>
      os_VirtualAlloc obliging_os h a sz fl pr = 0 \<or> os_VirtualAlloc obliging_os h a sz fl pr = a"
    by (simp add: obliging_os_simps)
  have nowrap: "\<forall>h sz fl pr. os_VirtualAlloc obliging_os h 0 sz fl pr \<noteq> 0 \<longrightarrow>
      RoundUp obliging_os (os_VirtualAlloc obliging_os h 0 sz fl pr) 0x100000 \<noteq> 0"
    by (simp add: obliging_os_simps macros_RoundUp_def macros_RoundDown_def)
  have rel: "\<not> DEBUG obliging_os \<and> (\<forall>h a. os_VirtualFree obliging_os h a 0 MEM_RELEASE)"
    by (simp add: obliging_os_simps)
  show ?thesis
    using Allocate_aligned [OF helper pow g pinned nowrap, of 0 "0x10000" kReadWrite initial_vm_state]
      rel g helper
    by (simp add: obliging_os_Allocate)
qed
section \<open>Properties of the file mappings and of failure reporting\<close>

text \<open>
  Claim C5, as amended. \<open>MemoryMappedFile::open\<close> returns null exactly when
  \<open>CreateFileA\<close> or \<open>CreateFileMapping\<close> fails. When \<open>MapViewOfFile\<close> fails it
  returns an object whose memory pointer is null. For a zero-length file the object
  has a null memory pointer, no mapping and size 0. Every object it returns is
  safely destructible: its destructor releases exactly what the call acquired
  (the view if one was mapped, then the mapping, then the file handle).
  \<open>MemoryMappedFile::create\<close> behaves in the same way, with size 0 in place of a
  zero-length file, whenever \<open>CreateFileA\<close> has returned a valid handle; what it
  does when \<open>CreateFileA\<close> fails is left out.
\<close>

theorem MemoryMappedFile_results:
  fixes os :: "'a::len word file_os"
  shows "(fst (MemoryMappedFile_open os name mode es) = None)
           = list_ex creation_failed (drop (length es) (snd (MemoryMappedFile_open os name mode es)))
       \<and> (case fst (MemoryMappedFile_open os name mode es) of
             None \<Rightarrow> True
           | Some f \<Rightarrow>
               Win32MemoryMappedFile_destroy f
                 = acquired (drop (length es) (snd (MemoryMappedFile_open os name mode es)))
               \<and> (list_ex view_failed (drop (length es) (snd (MemoryMappedFile_open os name mode es)))
                    \<longrightarrow> m_memory f = 0)
               \<and> (list_ex zero_length (drop (length es) (snd (MemoryMappedFile_open os name mode es)))
                    \<longrightarrow> m_memory f = 0 \<and> m_file_mapping f = 0 \<and> m_size f = 0))
       \<and> (os_CreateFileA os es name (GENERIC_READ OR GENERIC_WRITE)
             (FILE_SHARE_READ OR FILE_SHARE_WRITE) OPEN_ALWAYS \<notin> {0, INVALID_HANDLE_VALUE} \<longrightarrow>
           (fst (MemoryMappedFile_create os name size' initial es) = None)
             = list_ex creation_failed
                 (drop (length es) (snd (MemoryMappedFile_create os name size' initial es)))
           \<and> (case fst (MemoryMappedFile_create os name size' initial es) of
                 None \<Rightarrow> True
               | Some f \<Rightarrow>
                   Win32MemoryMappedFile_destroy f
                     = acquired (drop (length es) (snd (MemoryMappedFile_create os name size' initial es)))
                   \<and> (list_ex view_failed
                         (drop (length es) (snd (MemoryMappedFile_create os name size' initial es)))
                        \<longrightarrow> m_memory f = 0)
                   \<and> (size' = 0 \<longrightarrow> m_memory f = 0 \<and> m_file_mapping f = 0 \<and> m_size f = 0)))"
proof -
  have 1: "(fst (MemoryMappedFile_open os name mode es) = None)
           = list_ex creation_failed (drop (length es) (snd (MemoryMappedFile_open os name mode es)))"
    by (simp add: MemoryMappedFile_open_def Let_def)
  have 2: "(case fst (MemoryMappedFile_open os name mode es) of
             None \<Rightarrow> True
           | Some f \<Rightarrow>
               Win32MemoryMappedFile_destroy f
                 = acquired (drop (length es) (snd (MemoryMappedFile_open os name mode es)))
               \<and> (list_ex view_failed (drop (length es) (snd (MemoryMappedFile_open os name mode es)))
                    \<longrightarrow> m_memory f = 0)
               \<and> (list_ex zero_length (drop (length es) (snd (MemoryMappedFile_open os name mode es)))
                    \<longrightarrow> m_memory f = 0 \<and> m_file_mapping f = 0 \<and> m_size f = 0))"
    by (simp add: MemoryMappedFile_open_def Let_def Win32MemoryMappedFile_destroy_def)
  have 3: "(fst (MemoryMappedFile_create os name size' initial es) = None)
             = list_ex creation_failed
                 (drop (length es) (snd (MemoryMappedFile_create os name size' initial es)))"
    if "os_CreateFileA os es name (GENERIC_READ OR GENERIC_WRITE)
             (FILE_SHARE_READ OR FILE_SHARE_WRITE) OPEN_ALWAYS \<notin> {0, INVALID_HANDLE_VALUE}"
    using that by (simp add: MemoryMappedFile_create_def Let_def)
  have 4: "(case fst (MemoryMappedFile_create os name size' initial es) of
                 None \<Rightarrow> True
               | Some f \<Rightarrow>
                   Win32MemoryMappedFile_destroy f
                     = acquired (drop (length es) (snd (MemoryMappedFile_create os name size' initial es)))
                   \<and> (list_ex view_failed
                         (drop (length es) (snd (MemoryMappedFile_create os name size' initial es)))
                        \<longrightarrow> m_memory f = 0)
                   \<and> (size' = 0 \<longrightarrow> m_memory f = 0 \<and> m_file_mapping f = 0 \<and> m_size f = 0))"
    if "os_CreateFileA os es name (GENERIC_READ OR GENERIC_WRITE)
             (FILE_SHARE_READ OR FILE_SHARE_WRITE) OPEN_ALWAYS \<notin> {0, INVALID_HANDLE_VALUE}"
    using that by (simp add: MemoryMappedFile_create_def Let_def Win32MemoryMappedFile_destroy_def)
  show ?thesis using 1 2 3 4 by blast
qed

text \<open>
  Claim C5 as stated fails: when \<open>MapViewOfFile\<close> fails, \<open>open\<close> does not
  return null but an object with a null memory pointer and the size of the file.
\<close>

theorem MemoryMappedFile_open_view_failure_counterexample:
  "MemoryMappedFile_open unmappable_os ''f'' FileMode_kReadOnly []
   = (Some \<lparr>m_file = 0x100, m_file_mapping = 0x104, m_memory = 0, m_size = 4096\<rparr>,
      [EvCreateFileA ''f'' GENERIC_READ (FILE_SHARE_READ OR FILE_SHARE_WRITE) OPEN_EXISTING 0x100,
       EvGetFileSize 0x100 4096,
       EvCreateFileMapping 0x100 PAGE_READONLY 4096 0x104,
       EvMapViewOfFile 0x104 FILE_MAP_READ 4096 0])"
  by (simp add: MemoryMappedFile_open_def Let_def unmappable_os_def INVALID_HANDLE_VALUE_def)

text \<open>
  The test \<open>file == nullptr\<close> of \<open>create\<close> does not catch a failed
  \<open>CreateFileA\<close>, which returns \<open>INVALID_HANDLE_VALUE\<close> (as the test in \<open>open\<close>
  has it): with size 0 an object holding the invalid handle is returned.
\<close>

lemma MemoryMappedFile_create_invalid_handle:
  "fst (MemoryMappedFile_create no_file_os ''f'' 0 0 [])
   = Some \<lparr>m_file = INVALID_HANDLE_VALUE, m_file_mapping = 0, m_memory = 0, m_size = 0\<rparr>"
  by (simp add: MemoryMappedFile_create_def Let_def no_file_os_def unmappable_os_def INVALID_HANDLE_VALUE_def)


theorem MemoryMappedFile_results_witness:
  "os_CreateFileA unmappable_os [] ''f'' (GENERIC_READ OR GENERIC_WRITE)
     (FILE_SHARE_READ OR FILE_SHARE_WRITE) OPEN_ALWAYS \<noteq> 0
   \<and> os_CreateFileA unmappable_os [] ''f'' (GENERIC_READ OR GENERIC_WRITE)
     (FILE_SHARE_READ OR FILE_SHARE_WRITE) OPEN_ALWAYS \<noteq> INVALID_HANDLE_VALUE
   \<and> fst (MemoryMappedFile_create unmappable_os ''f'' 4096 0 [])
       = Some \<lparr>m_file = 0x100, m_file_mapping = 0x104, m_memory = 0, m_size = 4096\<rparr>
   \<and> list_ex view_failed (snd (MemoryMappedFile_create unmappable_os ''f'' 4096 0 []))
   \<and> Win32MemoryMappedFile_destroy
         \<lparr>m_file = 0x100, m_file_mapping = 0x104, m_memory = 0, m_size = 4096 :: 64 word\<rparr>
       = [EvCloseHandle 0x104, EvCloseHandle 0x100]"
  using MemoryMappedFile_results [where os = unmappable_os and es = "[]" and name = "''f''"
      and mode = FileMode_kReadOnly and size' = 4096 and initial = 0]
  by (simp add: MemoryMappedFile_create_def Let_def unmappable_os_def INVALID_HANDLE_VALUE_def
      Win32MemoryMappedFile_destroy_def)

lemma DiscardSystemPages_eq:
  fixes os :: "'a::len word vm_os"
  shows "fst (DiscardSystemPages os address size' s) =
     (let fn = (if discard_virtual_memory s = - 1 then os_GetProcAddress_DiscardVirtualMemory os
                else discard_virtual_memory s);
          h = vm_events s;
          ret = os_DiscardVirtualMemory os h address size'
      in if fn \<noteq> 0 \<and> ret = 0 then Return True
         else if os_VirtualAlloc os (if fn \<noteq> 0 then h @ [EvDiscardVirtualMemory address size' ret] else h)
                   address size' MEM_RESET PAGE_READWRITE = 0
         then Abort else Return True)"
  by (simp add: DiscardSystemPages_def DiscardVirtualMemory_def VirtualAlloc_eq Let_def)

lemma RandomizedVirtualAlloc_last:
  fixes os :: "'a::len word vm_os"
  assumes "RandomizedVirtualAlloc os sz fl pr hint s = (b, s1)"
  shows "\<exists>new a. vm_events s1 = vm_events s @ new @ [EvVirtualAlloc a sz fl pr b]"
proof -
  from RandomizedVirtualAlloc_events [of os sz fl pr hint s] assms
  obtain new where n: "vm_events s1 = vm_events s @ new"
    and c: "new = [EvVirtualAlloc 0 sz fl pr b] \<or> new = [EvVirtualAlloc hint sz fl pr b]
            \<or> new = [EvVirtualAlloc hint sz fl pr 0, EvVirtualAlloc 0 sz fl pr b]"
    by auto
  from c show ?thesis
  proof (elim disjE)
    assume "new = [EvVirtualAlloc 0 sz fl pr b]"
    then show ?thesis using n by (intro exI [of _ "[]"] exI [of _ 0]) simp
  next
    assume "new = [EvVirtualAlloc hint sz fl pr b]"
    then show ?thesis using n by (intro exI [of _ "[]"] exI [of _ hint]) simp
  next
    assume "new = [EvVirtualAlloc hint sz fl pr 0, EvVirtualAlloc 0 sz fl pr b]"
    then show ?thesis using n by (intro exI [of _ "[EvVirtualAlloc hint sz fl pr 0]"] exI [of _ 0]) simp
  qed
qed

lemma Allocate_loop_last_request:
  fixes os :: "'a::len word vm_os"
  assumes n: "nat (kMaxAttempts - i) = n"
    and ret: "fst (Allocate_loop os sz al fl pr hint ps i base ab s) = Return A"
  shows "(\<not> i < kMaxAttempts \<and> A = base \<and> snd (Allocate_loop os sz al fl pr hint ps i base ab s) = s)
       \<or> (\<exists>new a sz'. vm_events (snd (Allocate_loop os sz al fl pr hint ps i base ab s))
                         = vm_events s @ new @ [EvVirtualAlloc a sz' fl pr A])"
  using n ret
proof (induction n arbitrary: i base ab s)
  case 0
  then have d: "\<not> i < kMaxAttempts" by simp
  show ?case
    using 0(2) d Allocate_finish_Return [of os base ab s A]
    by (simp add: Allocate_loop_done [OF d])
next
  case (Suc n)
  then have lt: "i < kMaxAttempts" by simp
  let ?L = "Allocate_loop os sz al fl pr hint ps i base ab s"
  from lt show ?case
  proof (cases rule: Allocate_loop_cases [where os = os and ps = ps and fl = fl and pr = pr
        and hint = hint and s = s and sz = sz and al = al and base = base and ab = ab])
    case (oom s1)
    then have "A = 0" "snd ?L = s1" using Suc.prems(2) by simp_all
    then show ?thesis using RandomizedVirtualAlloc_last [OF oom(1)] by auto
  next
    case (free_abort b s1 s2)
    then show ?thesis using Suc.prems(2) by simp
  next
    case (free_failed b s1 s2)
    then show ?thesis using Suc.prems(2) by simp
  next
    case (got b s1 s2 b' s3)
    from RandomizedVirtualAlloc_last [OF got(1)] obtain new a where
      e1: "vm_events s1 = vm_events s @ new @ [EvVirtualAlloc a ps fl pr b]" by blast
    have e2: "vm_events s2 = vm_events s1 @ [EvVirtualFree b 0 MEM_RELEASE True]"
      by (rule Free_Return(1) [OF got(3)])
    have e3: "vm_events s3 = vm_events s2 @ [EvVirtualAlloc (RoundUp os b al) sz fl pr b']"
      using got(4) by (auto simp: VirtualAlloc_eq)
    have fin: "A = b'" "snd ?L = s3"
      using Suc.prems(2) Allocate_finish_Return [of os b' "RoundUp os b al" s3 A] got(6) by simp_all
    have "vm_events (snd ?L) = vm_events s
        @ (new @ [EvVirtualAlloc a ps fl pr b, EvVirtualFree b 0 MEM_RELEASE True])
        @ [EvVirtualAlloc (RoundUp os b al) sz fl pr A]"
      using fin e1 e2 e3 by simp
    then show ?thesis by blast
  next
    case (retry b s1 s2 s3)
    from RandomizedVirtualAlloc_last [OF retry(1)] obtain new a where
      e1: "vm_events s1 = vm_events s @ new @ [EvVirtualAlloc a ps fl pr b]" by blast
    have e2: "vm_events s2 = vm_events s1 @ [EvVirtualFree b 0 MEM_RELEASE True]"
      by (rule Free_Return(1) [OF retry(3)])
    have e3: "vm_events s3 = vm_events s2 @ [EvVirtualAlloc (RoundUp os b al) sz fl pr 0]"
      using retry(4) by (auto simp: VirtualAlloc_eq)
    let ?pre = "new @ [EvVirtualAlloc a ps fl pr b, EvVirtualFree b 0 MEM_RELEASE True]"
    have e: "vm_events s3 = vm_events s @ ?pre @ [EvVirtualAlloc (RoundUp os b al) sz fl pr 0]"
      using e1 e2 e3 by simp
    let ?L' = "Allocate_loop os sz al fl pr hint ps (i + 1) 0 (RoundUp os b al) s3"
    have i1: "nat (kMaxAttempts - (i + 1)) = n" using Suc.prems(1) by simp
    have r1: "fst ?L' = Return A" using Suc.prems(2) retry(5) by simp
    have LL: "?L = ?L'" by (rule retry(5))
    from Suc.IH [OF i1 r1] show ?thesis
    proof (elim disjE conjE exE)
      assume "A = 0" "snd ?L' = s3"
      then have "vm_events (snd ?L) = vm_events s @ ?pre @ [EvVirtualAlloc (RoundUp os b al) sz fl pr A]"
        using e LL by simp
      then show ?thesis by blast
    next
      fix new' a' sz'
      assume "vm_events (snd ?L') = vm_events s3 @ new' @ [EvVirtualAlloc a' sz' fl pr A]"
      then have "vm_events (snd ?L) = vm_events s
          @ (?pre @ [EvVirtualAlloc (RoundUp os b al) sz fl pr 0] @ new')
          @ [EvVirtualAlloc a' sz' fl pr A]"
        using e LL by simp
      then show ?thesis by blast
    qed
  qed
qed

lemma Allocate_loop_Abort:
  fixes os :: "'a::len word vm_os"
  assumes n: "nat (kMaxAttempts - i) = n"
    and ab: "fst (Allocate_loop os sz al fl pr hint ps i base ab s) = Abort"
  shows "DEBUG os \<or> (\<exists>evs a. vm_events (snd (Allocate_loop os sz al fl pr hint ps i base ab s))
                               = evs @ [EvVirtualFree a 0 MEM_RELEASE False])"
  using n ab
proof (induction n arbitrary: i base ab s)
  case 0
  then have d: "\<not> i < kMaxAttempts" by simp
  show ?case using 0(2) by (simp add: Allocate_loop_done [OF d] Allocate_finish_def split: if_splits)
next
  case (Suc n)
  then have lt: "i < kMaxAttempts" by simp
  from lt show ?case
  proof (cases rule: Allocate_loop_cases [where os = os and ps = ps and fl = fl and pr = pr
        and hint = hint and s = s and sz = sz and al = al and base = base and ab = ab])
    case (oom s1)
    then show ?thesis using Suc.prems(2) by simp
  next
    case (free_abort b s1 s2)
    then show ?thesis using Free_Abort(1) by blast
  next
    case (free_failed b s1 s2)
    then show ?thesis using Free_Return(1) [OF free_failed(3)] by simp
  next
    case (got b s1 s2 b' s3)
    then show ?thesis using Suc.prems(2) by (simp add: Allocate_finish_def split: if_splits)
  next
    case (retry b s1 s2 s3)
    have i1: "nat (kMaxAttempts - (i + 1)) = n" using Suc.prems(1) by simp
    show ?thesis using Suc.IH [OF i1] Suc.prems(2) retry(5) by simp
  qed
qed

lemma Allocate_last_request:
  fixes os :: "'a::len word vm_os"
  assumes ret: "fst (Allocate os hint size' alignment access s) = Return A"
  shows "\<exists>new a sz. vm_events (snd (Allocate os hint size' alignment access s))
           = vm_events s @ new @ [EvVirtualAlloc a sz (Allocate_flags access)
                                    (GetProtectionFromMemoryPermission os access) A]"
proof (cases rule: Allocate_cases [of os size' alignment hint access s])
  case precondition
  then show ?thesis using ret by simp
next
  case (oom s1)
  then have "A = 0" using ret by simp
  then show ?thesis using RandomizedVirtualAlloc_last [OF oom(1)] oom(2) by auto
next
  case (aligned b0 s1)
  then have "A = b0" using ret by simp
  then show ?thesis using RandomizedVirtualAlloc_last [OF aligned(1)] aligned(4) by auto
next
  case (free_abort b0 s1 s2)
  then show ?thesis using ret by simp
next
  case (free_failed b0 s1 s2)
  then show ?thesis using ret by simp
next
  case (retry b0 s1 s2)
  let ?fl = "Allocate_flags access"
  let ?pr = "GetProtectionFromMemoryPermission os access"
  let ?L = "Allocate_loop os size' alignment ?fl ?pr 0 (size' + (alignment - AllocatePageSize os)) 0 b0 0 s2"
  from RandomizedVirtualAlloc_last [OF retry(1)] obtain new a where
    e1: "vm_events s1 = vm_events s @ new @ [EvVirtualAlloc a size' ?fl ?pr b0]" by blast
  have e2: "vm_events s2 = vm_events s1 @ [EvVirtualFree b0 0 MEM_RELEASE True]"
    by (rule Free_Return(1) [OF retry(4)])
  have n3: "nat (kMaxAttempts - 0) = 3" by (simp add: kMaxAttempts_def)
  have r: "fst ?L = Return A" using ret retry(5) by simp
  from Allocate_loop_last_request [OF n3 r]
  obtain new' a' sz' where "vm_events (snd ?L) = vm_events s2 @ new' @ [EvVirtualAlloc a' sz' ?fl ?pr A]"
    by (auto simp: kMaxAttempts_def)
  then have "vm_events (snd (Allocate os hint size' alignment access s))
      = vm_events s @ (new @ [EvVirtualAlloc a size' ?fl ?pr b0, EvVirtualFree b0 0 MEM_RELEASE True] @ new')
        @ [EvVirtualAlloc a' sz' ?fl ?pr A]"
    using e1 e2 retry(5) by simp
  then show ?thesis by blast
qed

lemma Allocate_Abort:
  fixes os :: "'a::len word vm_os"
  assumes ab: "fst (Allocate os hint size' alignment access s) = Abort"
  shows "DEBUG os \<or> (\<exists>evs a. vm_events (snd (Allocate os hint size' alignment access s))
                               = evs @ [EvVirtualFree a 0 MEM_RELEASE False])"
proof (cases rule: Allocate_cases [of os size' alignment hint access s])
  case precondition
  then show ?thesis by simp
next
  case (oom s1)
  then show ?thesis using ab by simp
next
  case (aligned b0 s1)
  then show ?thesis using ab by simp
next
  case (free_abort b0 s1 s2)
  then show ?thesis using Free_Abort(1) by blast
next
  case (free_failed b0 s1 s2)
  then show ?thesis using Free_Return(1) [OF free_failed(4)] by simp
next
  case (retry b0 s1 s2)
  have n3: "nat (kMaxAttempts - 0) = 3" by (simp add: kMaxAttempts_def)
  show ?thesis
    using Allocate_loop_Abort [OF n3, of os size' alignment "Allocate_flags access"
        "GetProtectionFromMemoryPermission os access" 0 "size' + (alignment - AllocatePageSize os)"
        b0 0 s2] ab retry(5) by simp
qed

lemma Allocate_ends_on_failure:
  fixes os :: "'a::len word vm_os"
  assumes rel: "\<not> DEBUG os"
    and last: "vm_events (snd (Allocate os hint size' alignment access s)) = evs @ [EvVirtualAlloc a sz fl pr 0]"
  shows "fst (Allocate os hint size' alignment access s) = Return 0"
proof (cases "fst (Allocate os hint size' alignment access s)")
  case Abort
  then show ?thesis using Allocate_Abort [OF Abort] rel last by auto
next
  case (Return A)
  from Allocate_last_request [OF Return] last have "A = 0" by auto
  then show ?thesis using Return by simp
qed

text \<open>
  Claim C6, as amended. \<open>Allocate\<close> returns what its last request to the
  operating system returned, so in a release build it returns null whenever the
  call ends on a request that failed, be it the first request, a padded request
  or the last pinned request; it aborts only if a \<open>VirtualFree\<close> of a region
  it was just given fails. \<open>SetPermissions\<close> returns what the operating system
  call returned, as true or false. \<open>MemoryMappedFile::open\<close> returns null when
  \<open>CreateFileA\<close> or \<open>CreateFileMapping\<close> fails and an object with a null memory
  pointer when \<open>MapViewOfFile\<close> fails; so does \<open>MemoryMappedFile::create\<close> for
  \<open>CreateFileMapping\<close> and \<open>MapViewOfFile\<close>, once \<open>CreateFileA\<close> has not
  failed (what it does when \<open>CreateFileA\<close> fails is left out).
  \<open>DiscardSystemPages\<close> never returns false: it returns true when
  \<open>DiscardVirtualMemory\<close> is available and succeeds or when the \<open>MEM_RESET\<close>
  fallback succeeds, and it aborts (\<open>CHECK(ptr)\<close>) when the fallback fails.
\<close>

theorem allocation_failure_reporting:
  fixes os :: "'a::len word vm_os" and fos :: "'a word file_os"
  shows "(\<not> DEBUG os \<and> (\<forall>h a. os_VirtualFree os h a 0 MEM_RELEASE) \<longrightarrow>
            fst (Allocate os hint size' alignment access s) \<noteq> Abort)
       \<and> (fst (Allocate os hint size' alignment access s) = Abort \<longrightarrow>
            DEBUG os \<or> (\<exists>evs a. vm_events (snd (Allocate os hint size' alignment access s))
                                    = evs @ [EvVirtualFree a 0 MEM_RELEASE False]))
       \<and> (\<not> DEBUG os \<and> fst (RandomizedVirtualAlloc os size' (Allocate_flags access)
                               (GetProtectionFromMemoryPermission os access)
                               (AlignedAddress os hint alignment) s) = 0 \<longrightarrow>
            fst (Allocate os hint size' alignment access s) = Return 0)
       \<and> (\<forall>A. fst (Allocate os hint size' alignment access s) = Return A \<longrightarrow>
            (\<exists>new a sz. vm_events (snd (Allocate os hint size' alignment access s))
                          = vm_events s @ new @ [EvVirtualAlloc a sz (Allocate_flags access)
                                                   (GetProtectionFromMemoryPermission os access) A]))
       \<and> (\<forall>evs a sz fl pr.
            \<not> DEBUG os \<and> vm_events (snd (Allocate os hint size' alignment access s))
                             = evs @ [EvVirtualAlloc a sz fl pr 0] \<longrightarrow>
            fst (Allocate os hint size' alignment access s) = Return 0)
       \<and> (\<not> DEBUG os \<longrightarrow>
            fst (SetPermissions os address size' access s)
              = Return (if access = kNoAccess
                        then os_VirtualFree os (vm_events s) address size' MEM_DECOMMIT
                        else os_VirtualAlloc os (vm_events s) address size' MEM_COMMIT
                               (GetProtectionFromMemoryPermission os access) \<noteq> 0))
       \<and> fst (DiscardSystemPages os address size' s) =
            (let fn = (if discard_virtual_memory s = - 1 then os_GetProcAddress_DiscardVirtualMemory os
                       else discard_virtual_memory s);
                 h = vm_events s;
                 ret = os_DiscardVirtualMemory os h address size'
             in if fn \<noteq> 0 \<and> ret = 0 then Return True
                else if os_VirtualAlloc os
                          (if fn \<noteq> 0 then h @ [EvDiscardVirtualMemory address size' ret] else h)
                          address size' MEM_RESET PAGE_READWRITE = 0
                then Abort else Return True)
       \<and> (list_ex creation_failed (drop (length es) (snd (MemoryMappedFile_open fos name mode es))) \<longrightarrow>
            fst (MemoryMappedFile_open fos name mode es) = None)
       \<and> (list_ex view_failed (drop (length es) (snd (MemoryMappedFile_open fos name mode es))) \<longrightarrow>
            (\<exists>f. fst (MemoryMappedFile_open fos name mode es) = Some f \<and> m_memory f = 0))
       \<and> (os_CreateFileA fos es name (GENERIC_READ OR GENERIC_WRITE)
             (FILE_SHARE_READ OR FILE_SHARE_WRITE) OPEN_ALWAYS \<noteq> INVALID_HANDLE_VALUE \<longrightarrow>
            (list_ex creation_failed
                 (drop (length es) (snd (MemoryMappedFile_create fos name csize initial es))) \<longrightarrow>
               fst (MemoryMappedFile_create fos name csize initial es) = None)
            \<and> (list_ex view_failed
                   (drop (length es) (snd (MemoryMappedFile_create fos name csize initial es))) \<longrightarrow>
                 (\<exists>f. fst (MemoryMappedFile_create fos name csize initial es) = Some f \<and> m_memory f = 0)))"
proof -
  have n3: "nat (kMaxAttempts - 0) = 3" by (simp add: kMaxAttempts_def)
  have 1: "fst (Allocate os hint size' alignment access s) \<noteq> Abort"
    if rel: "\<not> DEBUG os" and free: "\<forall>h a. os_VirtualFree os h a 0 MEM_RELEASE"
  proof (cases rule: Allocate_cases [of os size' alignment hint access s])
    case precondition
    then show ?thesis using rel by simp
  next
    case (oom s1)
    then show ?thesis by simp
  next
    case (aligned b0 s1)
    then show ?thesis by simp
  next
    case (free_abort b0 s1 s2)
    then show ?thesis using rel Free_Abort(1) by blast
  next
    case (free_failed b0 s1 s2)
    then show ?thesis using free Free_Return(2) by blast
  next
    case (retry b0 s1 s2)
    then show ?thesis
      using Allocate_loop_no_abort [OF rel free n3, of size' alignment "Allocate_flags access"
          "GetProtectionFromMemoryPermission os access" 0 "size' + (alignment - AllocatePageSize os)"
          b0 0 s2] by simp
  qed
  have 2: "fst (Allocate os hint size' alignment access s) = Return 0"
    if "\<not> DEBUG os" and "fst (RandomizedVirtualAlloc os size' (Allocate_flags access)
          (GetProtectionFromMemoryPermission os access) (AlignedAddress os hint alignment) s) = 0"
    using that by (cases rule: Allocate_cases [of os size' alignment hint access s]) simp_all
  have 3: "fst (SetPermissions os address size' access s)
              = Return (if access = kNoAccess
                        then os_VirtualFree os (vm_events s) address size' MEM_DECOMMIT
                        else os_VirtualAlloc os (vm_events s) address size' MEM_COMMIT
                               (GetProtectionFromMemoryPermission os access) \<noteq> 0)"
    if "\<not> DEBUG os"
    using that by (simp add: SetPermissions_def VirtualFree_def VirtualAlloc_eq Let_def)
  have 5: "fst (MemoryMappedFile_open fos name mode es) = None"
    if "list_ex creation_failed (drop (length es) (snd (MemoryMappedFile_open fos name mode es)))"
    using that by (simp add: MemoryMappedFile_open_def Let_def split: if_splits)
  have 6: "\<exists>f. fst (MemoryMappedFile_open fos name mode es) = Some f \<and> m_memory f = 0"
    if "list_ex view_failed (drop (length es) (snd (MemoryMappedFile_open fos name mode es)))"
    using that by (simp add: MemoryMappedFile_open_def Let_def split: if_splits)
  have 7: "fst (MemoryMappedFile_create fos name csize initial es) = None"
    if "os_CreateFileA fos es name (GENERIC_READ OR GENERIC_WRITE)
          (FILE_SHARE_READ OR FILE_SHARE_WRITE) OPEN_ALWAYS \<noteq> INVALID_HANDLE_VALUE"
      and "list_ex creation_failed
             (drop (length es) (snd (MemoryMappedFile_create fos name csize initial es)))"
    using that by (simp add: MemoryMappedFile_create_def Let_def split: if_splits)
  have 8: "\<exists>f. fst (MemoryMappedFile_create fos name csize initial es) = Some f \<and> m_memory f = 0"
    if "os_CreateFileA fos es name (GENERIC_READ OR GENERIC_WRITE)
          (FILE_SHARE_READ OR FILE_SHARE_WRITE) OPEN_ALWAYS \<noteq> INVALID_HANDLE_VALUE"
      and "list_ex view_failed
             (drop (length es) (snd (MemoryMappedFile_create fos name csize initial es)))"
    using that by (simp add: MemoryMappedFile_create_def Let_def split: if_splits)
  note 9 = Allocate_Abort [of os hint size' alignment access s]
  note 10 = Allocate_last_request [of os hint size' alignment access s]
  note 11 = Allocate_ends_on_failure [of os hint size' alignment access s]
  note 12 = DiscardSystemPages_eq [of os address size' s]
  show ?thesis
    apply (intro conjI impI allI)
    subgoal using 1 by blast
    subgoal using 9 by blast
    subgoal using 2 by blast
    subgoal for A using 10 [of A] by blast
    subgoal for evs a sz fl pr using 11 [of evs a sz fl pr] by blast
    subgoal using 3 by blast
    subgoal by (rule 12)
    subgoal using 5 by blast
    subgoal using 6 by blast
    subgoal using 7 by blast
    subgoal using 8 by blast
    done
qed

lemma refusing_os_simps:
  "DEBUG refusing_os = False" "V8_HOST_ARCH_32_BIT refusing_os = False"
  "RoundUp refusing_os = macros_RoundUp" "AlignedAddress refusing_os = macros_AlignedAddress"
  "os_IsWindows10OrGreater refusing_os = True"
  "AllocatePageSize refusing_os = 0x10000"
  "os_VirtualAlloc refusing_os h a sz fl pr = 0"
  "os_VirtualFree refusing_os h a sz t = True"
  "os_GetProcAddress_DiscardVirtualMemory refusing_os = 0"
  by (simp_all add: refusing_os_def obliging_os_def AllocatePageSize_def)

text \<open>
  Claim C6 as stated fails: when \<open>DiscardVirtualMemory\<close> is not available and
  \<open>VirtualAlloc\<close> with \<open>MEM_RESET\<close> fails, \<open>DiscardSystemPages\<close> aborts the
  process instead of returning false.
\<close>

theorem DiscardSystemPages_abort_counterexample:
  "os_VirtualAlloc refusing_os [] 0x10000 0x1000 MEM_RESET PAGE_READWRITE = 0
   \<and> fst (DiscardSystemPages refusing_os 0x10000 0x1000 initial_vm_state) = Abort"
  by (simp add: DiscardSystemPages_def VirtualAlloc_eq Let_def refusing_os_simps initial_vm_state_def)

lemma one_region_os_simps:
  "DEBUG one_region_os = False" "V8_HOST_ARCH_32_BIT one_region_os = False"
  "RoundUp one_region_os = macros_RoundUp" "AlignedAddress one_region_os = macros_AlignedAddress"
  "os_IsWindows10OrGreater one_region_os = True"
  "AllocatePageSize one_region_os = 0x10000"
  "os_VirtualAlloc one_region_os h a sz fl pr = (if h = [] then 0x250000 else 0)"
  "os_VirtualFree one_region_os h a sz t = True"
  by (simp_all add: one_region_os_def obliging_os_def AllocatePageSize_def)

lemma one_region_os_Allocate:
  "Allocate one_region_os 0 0x10000 0x100000 kReadWrite initial_vm_state
   = (Return 0,
      \<lparr>vm_events = [EvVirtualAlloc 0 0x10000 0x3000 PAGE_READWRITE 0x250000,
                    EvVirtualFree 0x250000 0 MEM_RELEASE True,
                    EvVirtualAlloc 0 0x100000 0x3000 PAGE_READWRITE 0],
       use_aslr = 1, discard_virtual_memory = - 1\<rparr>)"
  by (simp add: Allocate_def Let_def one_region_os_simps RandomizedVirtualAlloc_def VirtualAlloc_eq
      initial_vm_state_def GetProtectionFromMemoryPermission_def Allocate_flags_def
      macros_RoundUp_def macros_RoundDown_def macros_AlignedAddress_def vm_const_defs Free_def VirtualFree_def
      Allocate_loop.simps [of _ _ _ _ _ _ _ 0] kMaxAttempts_def Allocate_finish_def)


theorem allocation_failure_reporting_witness:
  "\<not> DEBUG refusing_os
   \<and> fst (RandomizedVirtualAlloc refusing_os 0x10000 (Allocate_flags kReadWrite)
            (GetProtectionFromMemoryPermission refusing_os kReadWrite)
            (AlignedAddress refusing_os 0 0x10000) initial_vm_state) = 0
   \<and> fst (Allocate refusing_os 0 0x10000 0x10000 kReadWrite initial_vm_state) = Return 0
   \<and> fst (SetPermissions refusing_os 0x10000 0x10000 kReadWrite initial_vm_state) = Return False
   \<and> list_ex creation_failed (snd (MemoryMappedFile_open no_file_os ''f'' FileMode_kReadOnly []))
   \<and> fst (MemoryMappedFile_open no_file_os ''f'' FileMode_kReadOnly []) = None
   \<and> \<not> DEBUG one_region_os
   \<and> Allocate one_region_os 0 0x10000 0x100000 kReadWrite initial_vm_state
       = (Return 0,
          \<lparr>vm_events = [EvVirtualAlloc 0 0x10000 0x3000 PAGE_READWRITE 0x250000,
                        EvVirtualFree 0x250000 0 MEM_RELEASE True,
                        EvVirtualAlloc 0 0x100000 0x3000 PAGE_READWRITE 0],
           use_aslr = 1, discard_virtual_memory = - 1\<rparr>)
   \<and> os_CreateFileA unmappable_os [] ''f'' (GENERIC_READ OR GENERIC_WRITE)
         (FILE_SHARE_READ OR FILE_SHARE_WRITE) OPEN_ALWAYS \<noteq> INVALID_HANDLE_VALUE
   \<and> list_ex view_failed (snd (MemoryMappedFile_create unmappable_os ''f'' 4096 0 []))
   \<and> (\<exists>f. fst (MemoryMappedFile_create unmappable_os ''f'' 4096 0 []) = Some f \<and> m_memory f = 0)"
proof -
  have r: "fst (RandomizedVirtualAlloc refusing_os 0x10000 (Allocate_flags kReadWrite)
            (GetProtectionFromMemoryPermission refusing_os kReadWrite)
            (AlignedAddress refusing_os 0 0x10000) initial_vm_state) = 0"
    by (simp add: RandomizedVirtualAlloc_def VirtualAlloc_eq Let_def refusing_os_simps
        initial_vm_state_def GetProtectionFromMemoryPermission_def split: prod.split)
  have f: "list_ex creation_failed (snd (MemoryMappedFile_open no_file_os ''f'' FileMode_kReadOnly []))"
    by (simp add: MemoryMappedFile_open_def Let_def no_file_os_def unmappable_os_def)
  have c: "os_CreateFileA unmappable_os [] ''f'' (GENERIC_READ OR GENERIC_WRITE)
         (FILE_SHARE_READ OR FILE_SHARE_WRITE) OPEN_ALWAYS \<noteq> INVALID_HANDLE_VALUE"
    by (simp add: unmappable_os_def INVALID_HANDLE_VALUE_def)
  have v: "list_ex view_failed (snd (MemoryMappedFile_create unmappable_os ''f'' 4096 0 []))"
    by (simp add: MemoryMappedFile_create_def Let_def unmappable_os_def)
  note one = allocation_failure_reporting [where os = refusing_os and hint = 0 and size' = "0x10000"
        and alignment = "0x10000" and access = kReadWrite and s = initial_vm_state
        and address = "0x10000" and es = "[]" and fos = no_file_os and name = "''f''"
        and mode = FileMode_kReadOnly]
  note two = allocation_failure_reporting [where os = one_region_os and hint = 0 and size' = "0x10000"
        and alignment = "0x100000" and access = kReadWrite and s = initial_vm_state
        and es = "[]" and fos = unmappable_os and name = "''f''" and csize = 4096 and initial = 0]
  have a: "fst (Allocate one_region_os 0 0x10000 0x100000 kReadWrite initial_vm_state) = Return 0"
    using two by (simp add: one_region_os_Allocate one_region_os_simps)
  have m: "\<exists>f. fst (MemoryMappedFile_create unmappable_os ''f'' 4096 0 []) = Some f \<and> m_memory f = 0"
    using two c v by simp
  show ?thesis
    using one r f a m c v by (simp add: refusing_os_simps one_region_os_simps one_region_os_Allocate)
qed
section \<open>Properties of the shared library table\<close>






lemma LoadSymbols_loop_flags:
  assumes "LoadSymbols_loop os ms s = (b, s')"
  shows "dbghelp_loaded s' = dbghelp_loaded s" and "symbols_loaded s' = symbols_loaded s"
  using assms
  by (induction ms arbitrary: s) (auto simp: Let_def log_dbg_def split: if_splits)


lemma LoadSymbols_dbghelp_loaded:
  "dbghelp_loaded (snd (LoadSymbols os s)) = dbghelp_loaded s"
  by (auto simp: LoadSymbols_def Let_def log_dbg_def split: option.split prod.split
      dest!: LoadSymbols_loop_flags(1))














end
